theory Spec2Isabelle
  imports Complex_Main
begin

section \<open>Python values used by the backend\<close>

text \<open>
  Python \<open>str\<close> is modelled as \<open>string\<close>, \<open>float\<close> as \<open>real\<close> (exact arithmetic),
  \<open>int\<close> as \<open>int\<close>. A key that may be missing from a JSON dictionary is an \<open>option\<close>
  field, so that every \<open>d.get(k, default)\<close> and every \<open>d[k]\<close> of the source is visible.
\<close>

datatype py_error = KeyError string | ValueError | IndexError | IOError | PygameError

fun starts_with :: "string \<Rightarrow> string \<Rightarrow> bool" where
  "starts_with [] s = True"
| "starts_with (p # ps) [] = False"
| "starts_with (p # ps) (c # cs) = (p = c \<and> starts_with ps cs)"

text \<open>\<open>contains sub s\<close> is Python's \<open>sub in s\<close> on strings.\<close>

fun contains :: "string \<Rightarrow> string \<Rightarrow> bool" where
  "contains sub [] = (sub = [])"
| "contains sub (c # cs) = (starts_with sub (c # cs) \<or> contains sub cs)"

text \<open>\<open>str.lower()\<close> on the ASCII letters; every other byte is left as it is.\<close>

definition lower_char :: "char \<Rightarrow> char" where
  "lower_char c =
     (case map_of (zip ''ABCDEFGHIJKLMNOPQRSTUVWXYZ'' ''abcdefghijklmnopqrstuvwxyz'') c of
        None \<Rightarrow> c | Some l \<Rightarrow> l)"

definition lower :: "string \<Rightarrow> string" where
  "lower s = map lower_char s"

text \<open>\<open>str(n)\<close> for an integer, as an f-string prints it.\<close>

fun str_nat :: "nat \<Rightarrow> string" where
  "str_nat n =
     (if n < 10 then [''0123456789'' ! n]
      else str_nat (n div 10) @ [''0123456789'' ! (n mod 10)])"

declare str_nat.simps [simp del]

definition str_int :: "int \<Rightarrow> string" where
  "str_int i = (if i < 0 then ''-'' @ str_nat (nat (- i)) else str_nat (nat i))"

text \<open>\<open>xs[:k]\<close>: a negative \<open>k\<close> counts from the end.\<close>

definition slice_to :: "int \<Rightarrow> 'a list \<Rightarrow> 'a list" where
  "slice_to k xs = (if 0 \<le> k then take (nat k) xs else take (length xs - nat (- k)) xs)"

text \<open>\<open>os.path.join(dir, file)\<close> for a relative file name under a non-empty directory.\<close>

definition path_join :: "string \<Rightarrow> string \<Rightarrow> string" where
  "path_join d f = d @ ''/'' @ f"

text \<open>
  A Python \<open>dict\<close> with string keys, in insertion order: assigning to an existing key
  replaces its value in place, a new key is appended.
\<close>

type_synonym 'v pydict = "(string \<times> 'v) list"

fun dict_set :: "string \<Rightarrow> 'v \<Rightarrow> 'v pydict \<Rightarrow> 'v pydict" where
  "dict_set k v [] = [(k, v)]"
| "dict_set k v ((k', v') # d) = (if k = k' then (k, v) # d else (k', v') # dict_set k v d)"

definition dict_has :: "string \<Rightarrow> 'v pydict \<Rightarrow> bool" where
  "dict_has k d = (map_of d k \<noteq> None)"

section \<open>config.example.py\<close>

record config =
  MAX_DALLE_REQUESTS_PER_GAME :: int
  SPRITE_SIZE :: int
  BACKGROUND_SIZE :: "int \<times> int"
  ASSET_CACHE_DIR :: string
  GAME_WIDTH :: int
  GAME_HEIGHT :: int
  GRAVITY :: real
  FRICTION :: real
  JUMP_FORCE :: real
  MOVE_SPEED :: real

definition example_config :: config where
  "example_config =
     \<lparr> MAX_DALLE_REQUESTS_PER_GAME = 5, SPRITE_SIZE = 32, BACKGROUND_SIZE = (800, 600),
       ASSET_CACHE_DIR = ''cached_assets'', GAME_WIDTH = 800, GAME_HEIGHT = 600,
       GRAVITY = 981, FRICTION = 7 / 10, JUMP_FORCE = - 500, MOVE_SPEED = 200 \<rparr>"

section \<open>The JSON game description\<close>

record entity =
  ent_name :: "string option"
  ent_type :: "string option"
  ent_color :: "string option"
  ent_x :: "real option"
  ent_y :: "real option"
  ent_width :: "real option"
  ent_height :: "real option"

record platform_data =
  pd_x :: "real option"
  pd_y :: "real option"
  pd_width :: "real option"
  pd_height :: "real option"
  pd_color :: "string option"

record collectible_data =
  cd_x :: "real option"
  cd_y :: "real option"
  cd_width :: "real option"
  cd_height :: "real option"
  cd_points :: "int option"

text \<open>
  \<open>level.get('platforms', [])\<close> and \<open>level.get('collectibles', [])\<close> are the only reads
  of a level, so a missing key and an empty list are the same list here. The same holds
  for \<open>game_data.get('entities', [])\<close>. \<open>levels\<close> is read both with and without a
  default, so it stays optional.
\<close>

record level_data =
  lv_platforms :: "platform_data list"
  lv_collectibles :: "collectible_data list"

record game_data =
  gd_title :: "string option"
  gd_gameType :: "string option"
  gd_theme :: "string option"
  gd_artStyle :: "string option"
  gd_entities :: "entity list"
  gd_levels :: "level_data list option"

definition get_or :: "'a option \<Rightarrow> 'a \<Rightarrow> 'a" where
  "get_or v d = (case v of None \<Rightarrow> d | Some x \<Rightarrow> x)"

section \<open>asset_manager.py: prompts and cache keys\<close>

record asset_info =
  ai_name :: string
  ai_type :: string
  ai_prompt :: string
  ai_size :: "int \<times> int"

definition create_player_prompt :: "entity \<Rightarrow> game_data \<Rightarrow> string" where
  "create_player_prompt e gd =
     (let theme = get_or (gd_theme gd) ''fantasy'';
          art_style = get_or (gd_artStyle gd) ''pixel'';
          game_type = get_or (gd_gameType gd) ''platformer'';
          base_prompt = art_style @ '' art style, '' @ theme @ '' theme, mobile game sprite''
      in if game_type = ''racing'' then
           base_prompt @ '', top-down racing car, sleek design, bright colors, Formula 1 style, detailed wheels, transparent background, 32x32 pixels''
         else if game_type = ''flappy'' then
           base_prompt @ '', cute flying bird character, colorful feathers, expressive eyes, wings spread, cartoon style, transparent background, 32x32 pixels''
         else if game_type = ''shooter'' then
           base_prompt @ '', futuristic spaceship, detailed hull, engine thrusters, sci-fi design, metallic finish, transparent background, 32x32 pixels''
         else
           base_prompt @ '', heroic character, detailed armor, determined expression, action pose, RPG quality, transparent background, 32x32 pixels'')"

definition create_background_prompt :: "level_data \<Rightarrow> game_data \<Rightarrow> string" where
  "create_background_prompt lv gd =
     (let theme = get_or (gd_theme gd) ''fantasy'';
          art_style = get_or (gd_artStyle gd) ''pixel'';
          game_type = get_or (gd_gameType gd) ''platformer'';
          base_prompt = art_style @ '' art style, '' @ theme @ '' theme, mobile game background''
      in if game_type = ''racing'' then
           base_prompt @ '', professional racing track, asphalt surface, white lane markings, grandstands, aerial view, detailed track, 800x600 resolution''
         else if game_type = ''flappy'' then
           base_prompt @ '', beautiful sky environment, fluffy clouds, gradient blue sky, distant mountains, parallax layers, bright atmosphere, 800x600 resolution''
         else if game_type = ''shooter'' then
           base_prompt @ '', deep space environment, star field, nebulae, cosmic dust, sci-fi atmosphere, 800x600 resolution''
         else
           base_prompt @ '', detailed platformer environment, lush forest, rocky platforms, atmospheric lighting, adventure game quality, 800x600 resolution'')"

definition create_enemy_prompt :: "entity \<Rightarrow> game_data \<Rightarrow> string" where
  "create_enemy_prompt e gd =
     (let theme = get_or (gd_theme gd) ''fantasy'';
          art_style = get_or (gd_artStyle gd) ''pixel''
      in art_style @ '' art style, '' @ theme @ '' theme, enemy creature, menacing appearance, detailed features, hostile design, video game quality, transparent background, 32x32 pixels'')"

definition create_collectible_prompt :: "collectible_data \<Rightarrow> game_data \<Rightarrow> string" where
  "create_collectible_prompt c gd =
     (let theme = get_or (gd_theme gd) ''fantasy'';
          art_style = get_or (gd_artStyle gd) ''pixel''
      in art_style @ '' art style, '' @ theme @ '' theme, collectible item, shiny treasure, magical glow, valuable object, game pickup, transparent background, 24x24 pixels'')"

definition create_platform_prompt :: "platform_data \<Rightarrow> game_data \<Rightarrow> string" where
  "create_platform_prompt p gd =
     (let theme = get_or (gd_theme gd) ''fantasy'';
          art_style = get_or (gd_artStyle gd) ''pixel''
      in art_style @ '' art style, '' @ theme @ '' theme, platform texture, tileable surface, detailed texture, game environment, seamless tile, 64x32 pixels'')"

text \<open>
  \<open>get_cache_key(prompt, asset_type)\<close>. \<open>hashlib.md5(...).hexdigest()\<close> is a library
  function: it is the parameter \<open>md5\<close>, and nothing below depends on which function it is.
\<close>

definition get_cache_key :: "(string \<Rightarrow> string) \<Rightarrow> config \<Rightarrow> string \<Rightarrow> string \<Rightarrow> string" where
  "get_cache_key md5 cfg prompt asset_type =
     md5 (prompt @ ''_'' @ asset_type @ ''_'' @ str_int (SPRITE_SIZE cfg))"

text \<open>
  The first line of \<open>_generate_dalle_asset\<close>:
  \<open>cache_key = self.get_cache_key(asset_info['prompt'], asset_info['type'])\<close>.
\<close>

definition candidate_key :: "(string \<Rightarrow> string) \<Rightarrow> config \<Rightarrow> asset_info \<Rightarrow> string" where
  "candidate_key md5 cfg a = get_cache_key md5 cfg (ai_prompt a) (ai_type a)"

section \<open>asset_manager.py: the provisioning pipeline\<close>

text \<open>
  What lies outside the program is a parameter of the model:
  \<^item> \<open>md5\<close>: \<open>hashlib.md5(s.encode()).hexdigest()\<close>;
  \<^item> \<open>int16\<close>: Python's \<open>int(s, 16)\<close>, \<open>None\<close> where it raises \<open>ValueError\<close>;
  \<^item> \<open>dalle n\<close>: what happens to the \<open>n\<close>-th HTTP request this process sends to the
    image service, and to the writes that follow it inside the same \<open>try\<close> block;
  \<^item> \<open>fallback_saved p\<close>: whether drawing and saving the fallback image at path \<open>p\<close>
    completes (otherwise \<open>image.save\<close> raises).
\<close>

datatype dalle_outcome =
    Generated
  | BadStatus
  | RequestRaised
  | ArtifactWriteRaised
  | IndexWriteRaised

text \<open>
  \<^item> \<open>Generated\<close>: status 200, image decoded, resized and saved, index saved;
  \<^item> \<open>BadStatus\<close>: \<open>response.status_code != 200\<close>;
  \<^item> \<open>RequestRaised\<close>: \<open>requests.post\<close>, \<open>response.json()\<close>, decoding or resizing raises;
  \<^item> \<open>ArtifactWriteRaised\<close>: status 200, then \<open>image.save(asset_path, "PNG")\<close> raises;
  \<^item> \<open>IndexWriteRaised\<close>: status 200, image saved, then \<open>self.save_cache()\<close> raises.
\<close>

record am_env =
  md5 :: "string \<Rightarrow> string"
  int16 :: "string \<Rightarrow> int option"
  dalle :: "nat \<Rightarrow> dalle_outcome"
  fallback_saved :: "string \<Rightarrow> bool"

text \<open>
  The \<open>AssetManager\<close> instance together with the files under the cache directory.
  \<open>requests_sent\<close> is not a field of the class: it counts the calls of \<open>requests.post\<close>.
\<close>

record am_state =
  asset_cache :: "string \<rightharpoonup> string"
  dalle_request_count :: nat
  files :: "string set"
  requests_sent :: nat

subsection \<open>\<open>_identify_priority_assets\<close>\<close>

definition player_request :: "config \<Rightarrow> game_data \<Rightarrow> py_error + asset_info list" where
  "player_request cfg gd =
     (case find (\<lambda>e. ent_type e = Some ''player'') (gd_entities gd) of
        None \<Rightarrow> Inr []
      | Some player_entity \<Rightarrow>
          (case ent_name player_entity of
             None \<Rightarrow> Inl (KeyError ''name'')
           | Some n \<Rightarrow>
               Inr [\<lparr> ai_name = n, ai_type = ''character'',
                      ai_prompt = create_player_prompt player_entity gd,
                      ai_size = (SPRITE_SIZE cfg, SPRITE_SIZE cfg) \<rparr>]))"

definition background_request :: "config \<Rightarrow> game_data \<Rightarrow> asset_info list" where
  "background_request cfg gd =
     (case gd_levels gd of
        None \<Rightarrow> []
      | Some [] \<Rightarrow> []
      | Some (lv # _) \<Rightarrow>
          [\<lparr> ai_name = ''background'', ai_type = ''background'',
             ai_prompt = create_background_prompt lv gd,
             ai_size = BACKGROUND_SIZE cfg \<rparr>])"

definition enemy_request :: "config \<Rightarrow> game_data \<Rightarrow> py_error + asset_info list" where
  "enemy_request cfg gd =
     (case filter (\<lambda>e. contains ''enemy'' (lower (get_or (ent_name e) [])))
             (gd_entities gd) of
        [] \<Rightarrow> Inr []
      | enemy # _ \<Rightarrow>
          (case ent_name enemy of
             None \<Rightarrow> Inl (KeyError ''name'')
           | Some n \<Rightarrow>
               Inr [\<lparr> ai_name = n, ai_type = ''character'',
                      ai_prompt = create_enemy_prompt enemy gd,
                      ai_size = (SPRITE_SIZE cfg, SPRITE_SIZE cfg) \<rparr>]))"

definition collectible_request :: "game_data \<Rightarrow> asset_info list" where
  "collectible_request gd =
     (case concat (map lv_collectibles (get_or (gd_levels gd) [])) of
        [] \<Rightarrow> []
      | c # _ \<Rightarrow>
          [\<lparr> ai_name = ''collectible'', ai_type = ''item'',
             ai_prompt = create_collectible_prompt c gd, ai_size = (24, 24) \<rparr>])"

definition platform_request :: "game_data \<Rightarrow> asset_info list" where
  "platform_request gd =
     (case concat (map lv_platforms (get_or (gd_levels gd) [])) of
        [] \<Rightarrow> []
      | p # _ \<Rightarrow>
          [\<lparr> ai_name = ''platform'', ai_type = ''tile'',
             ai_prompt = create_platform_prompt p gd, ai_size = (64, 32) \<rparr>])"

definition identify_priority_assets :: "config \<Rightarrow> game_data \<Rightarrow> py_error + asset_info list" where
  "identify_priority_assets cfg gd =
     (case player_request cfg gd of
        Inl err \<Rightarrow> Inl err
      | Inr pl \<Rightarrow>
          (case enemy_request cfg gd of
             Inl err \<Rightarrow> Inl err
           | Inr en \<Rightarrow>
               Inr (slice_to (MAX_DALLE_REQUESTS_PER_GAME cfg)
                      (pl @ background_request cfg gd @ en @ collectible_request gd
                          @ platform_request gd))))"

subsection \<open>\<open>_generate_dalle_asset\<close>\<close>

text \<open>
  Everything after the cache check is inside \<open>try ... except Exception\<close>, so the
  function never raises: it returns a path or \<open>None\<close>. The returned path contains a
  \<open>/\<close>, so \<open>if asset_path:\<close> in the caller is the test "is not \<open>None\<close>".
\<close>

definition generate_dalle_asset ::
  "am_env \<Rightarrow> config \<Rightarrow> asset_info \<Rightarrow> am_state \<Rightarrow> string option \<times> am_state" where
  "generate_dalle_asset env cfg a s =
     (let cache_key = candidate_key (md5 env) cfg a;
          asset_path = path_join (ASSET_CACHE_DIR cfg) (cache_key @ ''.png'')
      in if asset_cache s cache_key \<noteq> None \<and> asset_path \<in> files s then (Some asset_path, s)
         else
           (let s1 = s\<lparr>requests_sent := requests_sent s + 1\<rparr>
            in case dalle env (requests_sent s) of
                 Generated \<Rightarrow>
                   (Some asset_path,
                    s1\<lparr>files := insert (path_join (ASSET_CACHE_DIR cfg) ''asset_cache.json'')
                                  (insert asset_path (files s1)),
                       asset_cache := (asset_cache s1)(cache_key \<mapsto> asset_path)\<rparr>)
               | BadStatus \<Rightarrow> (None, s1)
               | RequestRaised \<Rightarrow> (None, s1)
               | ArtifactWriteRaised \<Rightarrow> (None, s1)
               | IndexWriteRaised \<Rightarrow>
                   (None,
                    s1\<lparr>files := insert asset_path (files s1),
                       asset_cache := (asset_cache s1)(cache_key \<mapsto> asset_path)\<rparr>)))"

subsection \<open>\<open>_get_remaining_entities\<close> and \<open>_create_fallback_asset\<close>\<close>

fun get_remaining_entities :: "entity list \<Rightarrow> string pydict \<Rightarrow> py_error + entity list" where
  "get_remaining_entities [] generated_assets = Inr []"
| "get_remaining_entities (e # es) generated_assets =
     (case ent_name e of
        None \<Rightarrow> Inl (KeyError ''name'')
      | Some n \<Rightarrow>
          (case get_remaining_entities es generated_assets of
             Inl err \<Rightarrow> Inl err
           | Inr remaining \<Rightarrow>
               Inr (if dict_has n generated_assets then remaining else e # remaining)))"

text \<open>\<open>tuple(int(color[i:i+2], 16) for i in (0, 2, 4))\<close>\<close>

definition hex_rgb :: "(string \<Rightarrow> int option) \<Rightarrow> string \<Rightarrow> py_error + (int \<times> int \<times> int)" where
  "hex_rgb i16 color =
     (case i16 (take 2 color) of
        None \<Rightarrow> Inl ValueError
      | Some r \<Rightarrow>
          (case i16 (take 2 (drop 2 color)) of
             None \<Rightarrow> Inl ValueError
           | Some g \<Rightarrow>
               (case i16 (take 2 (drop 4 color)) of
                  None \<Rightarrow> Inl ValueError
                | Some b \<Rightarrow> Inr (r, g, b))))"

definition create_fallback_asset ::
  "am_env \<Rightarrow> config \<Rightarrow> entity \<Rightarrow> am_state \<Rightarrow> py_error + (string \<times> am_state)" where
  "create_fallback_asset env cfg e s =
     (case ent_name e of
        None \<Rightarrow> Inl (KeyError ''name'')
      | Some n \<Rightarrow>
          (let color = get_or (ent_color e) ''#4A90E2'';
               cache_key = ''fallback_'' @ n @ ''_'' @ color;
               asset_path = path_join (ASSET_CACHE_DIR cfg) (cache_key @ ''.png'')
           in if asset_path \<in> files s then Inr (asset_path, s)
              else
                (case (if starts_with ''#'' color then hex_rgb (int16 env) (drop 1 color)
                       else Inr (74, 144, 226)) of
                   Inl err \<Rightarrow> Inl err
                 | Inr rgb \<Rightarrow>
                     if fallback_saved env asset_path
                     then Inr (asset_path, s\<lparr>files := insert asset_path (files s)\<rparr>)
                     else Inl IOError)))"

subsection \<open>\<open>generate_game_assets\<close>\<close>

text \<open>Step 2, the loop over the ranked candidates, with its \<open>break\<close>.\<close>

fun priority_loop ::
  "am_env \<Rightarrow> config \<Rightarrow> asset_info list \<Rightarrow> string pydict \<times> am_state \<Rightarrow> string pydict \<times> am_state" where
  "priority_loop env cfg [] (assets, s) = (assets, s)"
| "priority_loop env cfg (a # as) (assets, s) =
     (if int (dalle_request_count s) \<ge> MAX_DALLE_REQUESTS_PER_GAME cfg then (assets, s)
      else
        (case generate_dalle_asset env cfg a s of
           (Some asset_path, s') \<Rightarrow>
             priority_loop env cfg as
               (dict_set (ai_name a) asset_path assets,
                s'\<lparr>dalle_request_count := dalle_request_count s' + 1\<rparr>)
         | (None, s') \<Rightarrow> priority_loop env cfg as (assets, s')))"

text \<open>Step 3, the loop over the remaining entities.\<close>

fun fallback_loop ::
  "am_env \<Rightarrow> config \<Rightarrow> entity list \<Rightarrow> string pydict \<times> am_state
     \<Rightarrow> py_error + (string pydict \<times> am_state)" where
  "fallback_loop env cfg [] (assets, s) = Inr (assets, s)"
| "fallback_loop env cfg (e # es) (assets, s) =
     (case create_fallback_asset env cfg e s of
        Inl err \<Rightarrow> Inl err
      | Inr (fallback_path, s') \<Rightarrow>
          (case ent_name e of
             None \<Rightarrow> Inl (KeyError ''name'')
           | Some n \<Rightarrow> fallback_loop env cfg es (dict_set n fallback_path assets, s')))"

definition generate_game_assets ::
  "am_env \<Rightarrow> config \<Rightarrow> game_data \<Rightarrow> am_state \<Rightarrow> py_error + (string pydict \<times> am_state)" where
  "generate_game_assets env cfg gd s =
     (case identify_priority_assets cfg gd of
        Inl err \<Rightarrow> Inl err
      | Inr priority_requests \<Rightarrow>
          (case priority_loop env cfg priority_requests ([], s\<lparr>dalle_request_count := 0\<rparr>) of
             (assets, s1) \<Rightarrow>
               (case get_remaining_entities (gd_entities gd) assets of
                  Inl err \<Rightarrow> Inl err
                | Inr remaining_entities \<Rightarrow> fallback_loop env cfg remaining_entities (assets, s1))))"

section \<open>game_engine.py: data\<close>

datatype GameType = PLATFORMER | RACING | FLAPPY | SHOOTER | TETRIS

text \<open>\<open>GameType(value)\<close>: the enum's constructor raises \<open>ValueError\<close> on an unknown value.\<close>

definition GameType_of :: "string \<Rightarrow> py_error + GameType" where
  "GameType_of v =
     (if v = ''platformer'' then Inr PLATFORMER
      else if v = ''racing'' then Inr RACING
      else if v = ''flappy'' then Inr FLAPPY
      else if v = ''shooter'' then Inr SHOOTER
      else if v = ''tetris'' then Inr TETRIS
      else Inl ValueError)"

record GameState =
  score :: int
  state_health :: int
  state_time :: real
  state_level :: int
  lives :: int
  game_over :: bool
  win :: bool

text \<open>\<open>GameState()\<close>, the dataclass defaults.\<close>

definition GameState_init :: GameState where
  "GameState_init =
     \<lparr> score = 0, state_health = 100, state_time = 0, state_level = 0, lives = 3,
       game_over = False, win = False \<rparr>"

text \<open>
  A \<open>pygame.Surface\<close> is known by where it comes from: a file that was loaded, or a
  scaled copy. \<open>int(width)\<close> truncates towards zero, and \<open>pygame.transform.scale\<close>
  raises \<open>ValueError\<close> on a negative size.
\<close>

datatype surface = Loaded string | Scaled surface int int

definition int_of_float :: "real \<Rightarrow> int" where
  "int_of_float r = (if 0 \<le> r then \<lfloor>r\<rfloor> else \<lceil>r\<rceil>)"

definition transform_scale :: "surface \<Rightarrow> int \<times> int \<Rightarrow> py_error + surface" where
  "transform_scale img wh =
     (case wh of (w, h) \<Rightarrow> if w < 0 \<or> h < 0 then Inl ValueError else Inr (Scaled img w h))"

text \<open>
  The dynamic \<open>pymunk.Body\<close> of the player: what the engine writes and reads of it.
  The static bodies of the platforms are \<open>static_body\<close> values; their positions are
  the centres of the boxes.
\<close>

record physics_body =
  body_mass :: real
  body_moment :: real
  pos_x :: real
  pos_y :: real
  vel_x :: real
  vel_y :: real

record static_body =
  sb_x :: real
  sb_y :: real
  sb_width :: real
  sb_height :: real
  sb_friction :: real

type_synonym color = "int \<times> int \<times> int"

record GameObject =
  obj_name :: string
  obj_x :: real
  obj_y :: real
  obj_width :: real
  obj_height :: real
  velocity_x :: real
  velocity_y :: real
  obj_color :: color
  sprite_path :: "string option"
  sprite :: "surface option"
  active :: bool

text \<open>
  The subclasses extend the base record, so \<open>GameObject.update\<close> applies to each of
  them as the inherited method does. \<open>physics_body\<close> is the attribute that
  \<open>_setup_physics\<close> adds to the player; \<open>None\<close> is \<open>not hasattr(player, 'physics_body')\<close>.
\<close>

record Player = GameObject +
  on_ground :: bool
  jump_force :: real
  move_speed :: real
  health :: int
  can_jump :: bool
  physics_body :: "physics_body option"

record Enemy = GameObject +
  speed :: real
  direction :: real
  patrol_range :: real
  start_x :: real

record Collectible = GameObject +
  points :: int
  collected :: bool

record Platform = GameObject +
  solid :: bool

definition Player_init :: "config \<Rightarrow> string \<Rightarrow> real \<Rightarrow> real \<Rightarrow> real \<Rightarrow> real \<Rightarrow> Player" where
  "Player_init cfg n x y w h =
     \<lparr> obj_name = n, obj_x = x, obj_y = y, obj_width = w, obj_height = h,
       velocity_x = 0, velocity_y = 0, obj_color = (255, 255, 255), sprite_path = None,
       sprite = None, active = True,
       on_ground = False, jump_force = JUMP_FORCE cfg, move_speed = MOVE_SPEED cfg,
       health = 100, can_jump = True, physics_body = None \<rparr>"

definition Enemy_init :: "string \<Rightarrow> real \<Rightarrow> real \<Rightarrow> real \<Rightarrow> real \<Rightarrow> Enemy" where
  "Enemy_init n x y w h =
     \<lparr> obj_name = n, obj_x = x, obj_y = y, obj_width = w, obj_height = h,
       velocity_x = 0, velocity_y = 0, obj_color = (255, 255, 255), sprite_path = None,
       sprite = None, active = True,
       speed = 50, direction = 1, patrol_range = 100, start_x = x \<rparr>"

definition Collectible_init ::
  "string \<Rightarrow> real \<Rightarrow> real \<Rightarrow> real \<Rightarrow> real \<Rightarrow> int \<Rightarrow> Collectible" where
  "Collectible_init n x y w h pts =
     \<lparr> obj_name = n, obj_x = x, obj_y = y, obj_width = w, obj_height = h,
       velocity_x = 0, velocity_y = 0, obj_color = (255, 255, 255), sprite_path = None,
       sprite = None, active = True,
       points = pts, collected = False \<rparr>"

definition Platform_init :: "string \<Rightarrow> real \<Rightarrow> real \<Rightarrow> real \<Rightarrow> real \<Rightarrow> Platform" where
  "Platform_init n x y w h =
     \<lparr> obj_name = n, obj_x = x, obj_y = y, obj_width = w, obj_height = h,
       velocity_x = 0, velocity_y = 0, obj_color = (255, 255, 255), sprite_path = None,
       sprite = None, active = True,
       solid = True \<rparr>"

text \<open>\<open>GameObject.update\<close>, inherited by every subclass.\<close>

definition GameObject_update :: "real \<Rightarrow> 'a GameObject_scheme \<Rightarrow> 'a GameObject_scheme" where
  "GameObject_update dt obj =
     obj\<lparr> obj_x := obj_x obj + velocity_x obj * dt, obj_y := obj_y obj + velocity_y obj * dt \<rparr>"

text \<open>\<open>Enemy.update\<close>: the patrol AI, then \<open>super().update(dt)\<close>.\<close>

definition Enemy_update :: "real \<Rightarrow> Enemy \<Rightarrow> Enemy" where
  "Enemy_update dt e =
     (let e1 = (if obj_x e \<ge> start_x e + patrol_range e then e\<lparr>direction := - 1\<rparr>
                else if obj_x e \<le> start_x e then e\<lparr>direction := 1\<rparr>
                else e);
          e2 = e1\<lparr>velocity_x := speed e1 * direction e1\<rparr>
      in GameObject_update dt e2)"

text \<open>\<open>Collectible.collect\<close>: the points awarded and the collectible afterwards.\<close>

definition collect :: "Collectible \<Rightarrow> int \<times> Collectible" where
  "collect c =
     (if \<not> collected c then (points c, c\<lparr>collected := True, active := False\<rparr>) else (0, c))"

text \<open>\<open>Player.jump\<close>, \<open>move_left\<close>, \<open>move_right\<close>, \<open>stop_horizontal\<close>.\<close>

definition jump :: "Player \<Rightarrow> Player" where
  "jump p =
     (if on_ground p \<and> can_jump p then p\<lparr>velocity_y := jump_force p, on_ground := False\<rparr>
      else p)"

definition move_left :: "Player \<Rightarrow> Player" where
  "move_left p = p\<lparr>velocity_x := - move_speed p\<rparr>"

definition move_right :: "Player \<Rightarrow> Player" where
  "move_right p = p\<lparr>velocity_x := move_speed p\<rparr>"

definition stop_horizontal :: "Player \<Rightarrow> Player" where
  "stop_horizontal p = p\<lparr>velocity_x := 0\<rparr>"

subsection \<open>The engine\<close>

text \<open>
  Python keeps one object per entity and puts a reference to it into \<open>all_objects\<close> and
  into the list of its class, so a write through one list is seen through the other. The
  model keeps each object once, in the list of its class (\<open>enemies\<close>, \<open>collectibles\<close>,
  \<open>platforms\<close>: the source appends every object of the class to that list when it is
  created and never removes one; \<open>players\<close> holds every \<open>Player\<close> created), and
  \<open>all_objects\<close> holds references: the class and the position in that list.
  \<open>player\<close> is \<open>self.player\<close>, a reference into \<open>players\<close>.
\<close>

datatype obj_ref = PlayerRef nat | EnemyRef nat | CollectibleRef nat | PlatformRef nat

record engine =
  eng_width :: int
  eng_height :: int
  running :: bool
  eng_dt :: real
  game_state :: GameState
  game_type :: GameType
  game_data :: "game_data option"
  players :: "Player list"
  player :: "nat option"
  enemies :: "Enemy list"
  collectibles :: "Collectible list"
  platforms :: "Platform list"
  all_objects :: "obj_ref list"
  space :: "static_body list"
  camera_x :: real
  camera_y :: real
  assets :: "surface pydict"
  background :: "surface option"
  keys_pressed :: "string set"

text \<open>
  \<open>PygameGameEngine.__init__\<close>. \<open>pygame.Surface((width, height))\<close> raises on a negative
  size.
\<close>

definition PygameGameEngine_init :: "int \<Rightarrow> int \<Rightarrow> py_error + engine" where
  "PygameGameEngine_init w h =
     (if w < 0 \<or> h < 0 then Inl PygameError
      else Inr \<lparr> eng_width = w, eng_height = h, running = True, eng_dt = 0,
                 game_state = GameState_init, game_type = PLATFORMER, game_data = None,
                 players = [], player = None, enemies = [], collectibles = [],
                 platforms = [], all_objects = [], space = [], camera_x = 0, camera_y = 0,
                 assets = [], background = None, keys_pressed = {} \<rparr>)"

text \<open>
  What the engine takes from outside: \<open>py_int16\<close> is \<open>int(s, 16)\<close>; \<open>image_loads p\<close>
  tells whether \<open>pygame.image.load(p)\<close> and the conversion succeed; \<open>colliderect a b\<close>
  is \<open>colliderect\<close> of the \<open>pygame.Rect\<close> built from the four numbers \<open>a\<close> on the
  \<open>pygame.Rect\<close> built from the four numbers \<open>b\<close>.
\<close>

type_synonym rect = "real \<times> real \<times> real \<times> real"

record engine_env =
  py_int16 :: "string \<Rightarrow> int option"
  image_loads :: "string \<Rightarrow> bool"
  colliderect :: "rect \<Rightarrow> rect \<Rightarrow> bool"

definition rect_of :: "'a GameObject_scheme \<Rightarrow> rect" where
  "rect_of obj = (obj_x obj, obj_y obj, obj_width obj, obj_height obj)"

section \<open>game_engine.py: initialisation\<close>

text \<open>
  \<open>_load_assets\<close>: a file that fails to load is skipped (\<open>try ... except\<close>). The engine's
  width and height are not negative, so scaling the background does not raise.
\<close>

fun load_assets :: "engine_env \<Rightarrow> string pydict \<Rightarrow> engine \<Rightarrow> engine" where
  "load_assets env [] s = s"
| "load_assets env ((asset_name, asset_path) # rest) s =
     load_assets env rest
       (if image_loads env asset_path then
          (if asset_name = ''background'' then
             s\<lparr>background := Some (Scaled (Loaded asset_path) (eng_width s) (eng_height s))\<rparr>
           else s\<lparr>assets := dict_set asset_name (Loaded asset_path) (assets s)\<rparr>)
        else s)"

text \<open>The colour of an entity: \<open>#RRGGBB\<close> is parsed, anything else is white.\<close>

definition parse_color :: "(string \<Rightarrow> int option) \<Rightarrow> string \<Rightarrow> py_error + color" where
  "parse_color i16 color_str =
     (if starts_with ''#'' color_str then hex_rgb i16 (drop 1 color_str)
      else Inr (255, 255, 255))"

definition add_player :: "Player \<Rightarrow> engine \<Rightarrow> engine" where
  "add_player p s =
     s\<lparr> players := players s @ [p], player := Some (length (players s)),
        all_objects := all_objects s @ [PlayerRef (length (players s))] \<rparr>"

definition add_enemy :: "Enemy \<Rightarrow> engine \<Rightarrow> engine" where
  "add_enemy e s =
     s\<lparr> enemies := enemies s @ [e],
        all_objects := all_objects s @ [EnemyRef (length (enemies s))] \<rparr>"

definition add_platform :: "Platform \<Rightarrow> engine \<Rightarrow> engine" where
  "add_platform p s =
     s\<lparr> platforms := platforms s @ [p],
        all_objects := all_objects s @ [PlatformRef (length (platforms s))] \<rparr>"

definition add_collectible :: "Collectible \<Rightarrow> engine \<Rightarrow> engine" where
  "add_collectible c s =
     s\<lparr> collectibles := collectibles s @ [c],
        all_objects := all_objects s @ [CollectibleRef (length (collectibles s))] \<rparr>"

text \<open>\<open>if not obj.sprite: obj.color = color\<close>\<close>

definition color_unless_sprite :: "color \<Rightarrow> 'a GameObject_scheme \<Rightarrow> 'a GameObject_scheme" where
  "color_unless_sprite c obj = (if sprite obj = None then obj\<lparr>obj_color := c\<rparr> else obj)"

definition map_at :: "nat \<Rightarrow> ('a \<Rightarrow> 'a) \<Rightarrow> 'a list \<Rightarrow> 'a list" where
  "map_at i f xs = (if i < length xs then xs[i := f (xs ! i)] else xs)"

text \<open>\<open>for obj in self.all_objects[-1:]: ...\<close>: the last object added, if there is one.\<close>

definition color_last_object :: "color \<Rightarrow> engine \<Rightarrow> engine" where
  "color_last_object c s =
     (case all_objects s of
        [] \<Rightarrow> s
      | _ # _ \<Rightarrow>
          (case last (all_objects s) of
             PlayerRef i \<Rightarrow> s\<lparr>players := map_at i (color_unless_sprite c) (players s)\<rparr>
           | EnemyRef i \<Rightarrow> s\<lparr>enemies := map_at i (color_unless_sprite c) (enemies s)\<rparr>
           | CollectibleRef i \<Rightarrow>
               s\<lparr>collectibles := map_at i (color_unless_sprite c) (collectibles s)\<rparr>
           | PlatformRef i \<Rightarrow> s\<lparr>platforms := map_at i (color_unless_sprite c) (platforms s)\<rparr>))"

text \<open>
  The sprite of a new object: the asset of that name scaled to the object's size, when
  \<open>name in self.assets\<close>.
\<close>

definition sprite_for :: "engine \<Rightarrow> string \<Rightarrow> real \<Rightarrow> real \<Rightarrow> py_error + surface option" where
  "sprite_for s n w h =
     (case map_of (assets s) n of
        None \<Rightarrow> Inr None
      | Some img \<Rightarrow>
          (case transform_scale img (int_of_float w, int_of_float h) of
             Inl err \<Rightarrow> Inl err
           | Inr scaled \<Rightarrow> Inr (Some scaled)))"

text \<open>Whether the loop body of \<open>_create_entities\<close> creates an object for the entity.\<close>

definition is_player_entity :: "entity \<Rightarrow> bool" where
  "is_player_entity entity_data = (get_or (ent_type entity_data) ''object'' = ''player'')"

definition is_enemy_entity :: "entity \<Rightarrow> bool" where
  "is_enemy_entity entity_data =
     (contains ''enemy'' (lower (get_or (ent_type entity_data) ''object'')) \<or>
      contains ''enemy'' (lower (get_or (ent_name entity_data) ''unnamed'')))"

text \<open>One iteration of the loop of \<open>_create_entities\<close>.\<close>

definition create_entity :: "engine_env \<Rightarrow> config \<Rightarrow> entity \<Rightarrow> engine \<Rightarrow> py_error + engine" where
  "create_entity env cfg entity_data s =
     (let name = get_or (ent_name entity_data) ''unnamed'';
          x = get_or (ent_x entity_data) 0;
          y = get_or (ent_y entity_data) 0;
          width = get_or (ent_width entity_data) 32;
          height = get_or (ent_height entity_data) 32
      in case (if is_player_entity entity_data then
                 (case sprite_for s name width height of
                    Inl err \<Rightarrow> Inl err
                  | Inr spr \<Rightarrow>
                      Inr (add_player ((Player_init cfg name x y width height)\<lparr>sprite := spr\<rparr>) s))
               else if is_enemy_entity entity_data then
                 (case sprite_for s name width height of
                    Inl err \<Rightarrow> Inl err
                  | Inr spr \<Rightarrow>
                      Inr (add_enemy ((Enemy_init name x y width height)\<lparr>sprite := spr\<rparr>) s))
               else Inr s) of
           Inl err \<Rightarrow> Inl err
         | Inr s1 \<Rightarrow>
             (case parse_color (py_int16 env) (get_or (ent_color entity_data) ''#FFFFFF'') of
                Inl err \<Rightarrow> Inl err
              | Inr c \<Rightarrow> Inr (color_last_object c s1)))"

fun create_entities :: "engine_env \<Rightarrow> config \<Rightarrow> entity list \<Rightarrow> engine \<Rightarrow> py_error + engine" where
  "create_entities env cfg [] s = Inr s"
| "create_entities env cfg (entity_data # rest) s =
     (case create_entity env cfg entity_data s of
        Inl err \<Rightarrow> Inl err
      | Inr s1 \<Rightarrow> create_entities env cfg rest s1)"

text \<open>\<open>_create_level_objects\<close>: the platforms, then the collectibles.\<close>

definition create_platform :: "engine_env \<Rightarrow> platform_data \<Rightarrow> engine \<Rightarrow> py_error + engine" where
  "create_platform env platform_data s =
     (let platform =
            Platform_init (''platform_'' @ str_nat (length (platforms s)))
              (get_or (pd_x platform_data) 0) (get_or (pd_y platform_data) 0)
              (get_or (pd_width platform_data) 100) (get_or (pd_height platform_data) 20);
          color_str = get_or (pd_color platform_data) ''#8B4513''
      in if starts_with ''#'' color_str then
           (case hex_rgb (py_int16 env) (drop 1 color_str) of
              Inl err \<Rightarrow> Inl err
            | Inr c \<Rightarrow> Inr (add_platform (platform\<lparr>obj_color := c\<rparr>) s))
         else Inr (add_platform platform s))"

definition create_collectible :: "collectible_data \<Rightarrow> engine \<Rightarrow> py_error + engine" where
  "create_collectible collectible_data s =
     (let width = get_or (cd_width collectible_data) 20;
          height = get_or (cd_height collectible_data) 20;
          collectible =
            Collectible_init (''collectible_'' @ str_nat (length (collectibles s)))
              (get_or (cd_x collectible_data) 0) (get_or (cd_y collectible_data) 0)
              width height (get_or (cd_points collectible_data) 10)
      in case sprite_for s ''collectible'' width height of
           Inl err \<Rightarrow> Inl err
         | Inr None \<Rightarrow> Inr (add_collectible (collectible\<lparr>obj_color := (255, 215, 0)\<rparr>) s)
         | Inr (Some scaled) \<Rightarrow> Inr (add_collectible (collectible\<lparr>sprite := Some scaled\<rparr>) s))"

fun create_platforms :: "engine_env \<Rightarrow> platform_data list \<Rightarrow> engine \<Rightarrow> py_error + engine" where
  "create_platforms env [] s = Inr s"
| "create_platforms env (platform_data # rest) s =
     (case create_platform env platform_data s of
        Inl err \<Rightarrow> Inl err
      | Inr s1 \<Rightarrow> create_platforms env rest s1)"

fun create_collectibles :: "collectible_data list \<Rightarrow> engine \<Rightarrow> py_error + engine" where
  "create_collectibles [] s = Inr s"
| "create_collectibles (collectible_data # rest) s =
     (case create_collectible collectible_data s of
        Inl err \<Rightarrow> Inl err
      | Inr s1 \<Rightarrow> create_collectibles rest s1)"

definition create_level_objects :: "engine_env \<Rightarrow> level_data \<Rightarrow> engine \<Rightarrow> py_error + engine" where
  "create_level_objects env lv s =
     (case create_platforms env (lv_platforms lv) s of
        Inl err \<Rightarrow> Inl err
      | Inr s1 \<Rightarrow> create_collectibles (lv_collectibles lv) s1)"

text \<open>
  \<open>_setup_physics\<close>: one static body per platform, and the dynamic body of the player
  (mass 10, \<open>pymunk.moment_for_box\<close>), both centred on their boxes.
\<close>

definition static_of :: "config \<Rightarrow> Platform \<Rightarrow> static_body" where
  "static_of cfg p =
     \<lparr> sb_x = obj_x p + obj_width p / 2, sb_y = obj_y p + obj_height p / 2,
       sb_width = obj_width p, sb_height = obj_height p, sb_friction = FRICTION cfg \<rparr>"

definition body_of :: "Player \<Rightarrow> physics_body" where
  "body_of p =
     \<lparr> body_mass = 10,
       body_moment = 10 * (obj_width p * obj_width p + obj_height p * obj_height p) / 12,
       pos_x = obj_x p + obj_width p / 2, pos_y = obj_y p + obj_height p / 2,
       vel_x = 0, vel_y = 0 \<rparr>"

definition setup_physics :: "config \<Rightarrow> engine \<Rightarrow> engine" where
  "setup_physics cfg s =
     (let s1 = s\<lparr>space := space s @ map (static_of cfg) (platforms s)\<rparr>
      in case player s1 of
           None \<Rightarrow> s1
         | Some i \<Rightarrow>
             s1\<lparr>players := map_at i (\<lambda>p. p\<lparr>physics_body := Some (body_of p)\<rparr>) (players s1)\<rparr>)"

text \<open>\<open>game_data.get('levels', [{}])[0]\<close>\<close>

definition first_level :: "game_data \<Rightarrow> py_error + level_data" where
  "first_level gd =
     (case gd_levels gd of
        None \<Rightarrow> Inr \<lparr> lv_platforms = [], lv_collectibles = [] \<rparr>
      | Some [] \<Rightarrow> Inl IndexError
      | Some (lv # _) \<Rightarrow> Inr lv)"

definition initialize_game ::
  "engine_env \<Rightarrow> config \<Rightarrow> game_data \<Rightarrow> string pydict \<Rightarrow> engine \<Rightarrow> py_error + engine" where
  "initialize_game env cfg gd asset_paths s =
     (case GameType_of (get_or (gd_gameType gd) ''platformer'') of
        Inl err \<Rightarrow> Inl err
      | Inr gt \<Rightarrow>
          (case create_entities env cfg (gd_entities gd)
                  (load_assets env asset_paths (s\<lparr>game_data := Some gd, game_type := gt\<rparr>)) of
             Inl err \<Rightarrow> Inl err
           | Inr s2 \<Rightarrow>
               (case first_level gd of
                  Inl err \<Rightarrow> Inl err
                | Inr lv \<Rightarrow>
                    (case create_level_objects env lv s2 of
                       Inl err \<Rightarrow> Inl err
                     | Inr s3 \<Rightarrow> Inr (setup_physics cfg s3)))))"

text \<open>
  A session as \<open>main.py\<close> starts it: a new engine, then \<open>initialize_game\<close> on it.
\<close>

definition new_session ::
  "engine_env \<Rightarrow> config \<Rightarrow> game_data \<Rightarrow> string pydict \<Rightarrow> py_error + engine" where
  "new_session env cfg gd asset_paths =
     (case PygameGameEngine_init (GAME_WIDTH cfg) (GAME_HEIGHT cfg) of
        Inl err \<Rightarrow> Inl err
      | Inr s \<Rightarrow> initialize_game env cfg gd asset_paths s)"

section \<open>game_engine.py: the frame loop\<close>

text \<open>\<open>self.player\<close> as an object, when there is one.\<close>

definition current_player :: "engine \<Rightarrow> Player option" where
  "current_player s =
     (case player s of
        None \<Rightarrow> None
      | Some i \<Rightarrow> if i < length (players s) then Some (players s ! i) else None)"

definition handle_input :: "config \<Rightarrow> string set \<Rightarrow> engine \<Rightarrow> engine" where
  "handle_input cfg keys s =
     (let s1 = s\<lparr>keys_pressed := keys\<rparr>
      in case player s1 of
           None \<Rightarrow> s1
         | Some i \<Rightarrow>
             if game_type s1 = PLATFORMER then
               (let horizontal =
                      (if ''left'' \<in> keys \<or> ''a'' \<in> keys then move_left
                       else if ''right'' \<in> keys \<or> ''d'' \<in> keys then move_right
                       else stop_horizontal);
                    vertical =
                      (if ''up'' \<in> keys \<or> ''w'' \<in> keys \<or> ''space'' \<in> keys then jump
                       else (\<lambda>p. p))
                in s1\<lparr>players := map_at i (\<lambda>p. vertical (horizontal p)) (players s1)\<rparr>)
             else if game_type s1 = RACING then
               (let vertical =
                      (\<lambda>p. if ''up'' \<in> keys \<or> ''w'' \<in> keys then p\<lparr>velocity_y := - MOVE_SPEED cfg\<rparr>
                           else if ''down'' \<in> keys \<or> ''s'' \<in> keys
                             then p\<lparr>velocity_y := MOVE_SPEED cfg\<rparr>
                           else p\<lparr>velocity_y := velocity_y p * (9 / 10)\<rparr>);
                    horizontal =
                      (\<lambda>p. if ''left'' \<in> keys \<or> ''a'' \<in> keys then p\<lparr>velocity_x := - MOVE_SPEED cfg\<rparr>
                           else if ''right'' \<in> keys \<or> ''d'' \<in> keys
                             then p\<lparr>velocity_x := MOVE_SPEED cfg\<rparr>
                           else p\<lparr>velocity_x := velocity_x p * (9 / 10)\<rparr>)
                in s1\<lparr>players := map_at i (\<lambda>p. horizontal (vertical p)) (players s1)\<rparr>)
             else s1)"

text \<open>
  \<open>obj.update(dt)\<close> on one entry of \<open>all_objects\<close>, if the object is active: the method
  of the object's class runs, \<open>Enemy.update\<close> for an enemy and the inherited
  \<open>GameObject.update\<close> for the others.
\<close>

fun update_object :: "real \<Rightarrow> obj_ref \<Rightarrow> engine \<Rightarrow> engine" where
  "update_object dt (PlayerRef i) s =
     s\<lparr>players := map_at i (\<lambda>p. if active p then GameObject_update dt p else p) (players s)\<rparr>"
| "update_object dt (EnemyRef i) s =
     s\<lparr>enemies := map_at i (\<lambda>e. if active e then Enemy_update dt e else e) (enemies s)\<rparr>"
| "update_object dt (CollectibleRef i) s =
     s\<lparr>collectibles :=
         map_at i (\<lambda>c. if active c then GameObject_update dt c else c) (collectibles s)\<rparr>"
| "update_object dt (PlatformRef i) s =
     s\<lparr>platforms := map_at i (\<lambda>p. if active p then GameObject_update dt p else p) (platforms s)\<rparr>"

text \<open>The loop over the collectibles in \<open>_check_collisions\<close>, threading the score.\<close>

fun collect_loop ::
  "(rect \<Rightarrow> rect \<Rightarrow> bool) \<Rightarrow> rect \<Rightarrow> Collectible list \<Rightarrow> int \<Rightarrow> Collectible list \<times> int" where
  "collect_loop cr player_rect [] sc = ([], sc)"
| "collect_loop cr player_rect (c # cs) sc =
     (if active c \<and> cr player_rect (rect_of c) then
        (case collect c of
           (pts, c') \<Rightarrow>
             (case collect_loop cr player_rect cs (sc + pts) of (cs', sc') \<Rightarrow> (c' # cs', sc')))
      else (case collect_loop cr player_rect cs sc of (cs', sc') \<Rightarrow> (c # cs', sc')))"

text \<open>The loop over the enemies, threading the player's health and \<open>game_over\<close>.\<close>

fun enemy_loop ::
  "(rect \<Rightarrow> rect \<Rightarrow> bool) \<Rightarrow> rect \<Rightarrow> Enemy list \<Rightarrow> int \<times> bool \<Rightarrow> int \<times> bool" where
  "enemy_loop cr player_rect [] (hp, over) = (hp, over)"
| "enemy_loop cr player_rect (e # es) (hp, over) =
     (if active e \<and> cr player_rect (rect_of e) then
        enemy_loop cr player_rect es (hp - 10, (if hp - 10 \<le> 0 then True else over))
      else enemy_loop cr player_rect es (hp, over))"

definition check_collisions :: "engine_env \<Rightarrow> engine \<Rightarrow> engine" where
  "check_collisions env s =
     (case player s of
        None \<Rightarrow> s
      | Some i \<Rightarrow>
          (case current_player s of
             None \<Rightarrow> s
           | Some p \<Rightarrow>
               (case collect_loop (colliderect env) (rect_of p) (collectibles s)
                       (score (game_state s)) of
                  (cs', sc') \<Rightarrow>
                    (case enemy_loop (colliderect env) (rect_of p) (enemies s)
                            (health p, game_over (game_state s)) of
                       (hp', over') \<Rightarrow>
                         s\<lparr> collectibles := cs',
                            players := map_at i (\<lambda>q. q\<lparr>health := hp'\<rparr>) (players s),
                            game_state :=
                              (game_state s)\<lparr>score := sc', game_over := over'\<rparr> \<rparr>))))"

definition update_camera :: "engine \<Rightarrow> engine" where
  "update_camera s =
     (case current_player s of
        None \<Rightarrow> s
      | Some p \<Rightarrow>
          (let target_x = obj_x p - of_int (eng_width s div 2);
               target_y = obj_y p - of_int (eng_height s div 2)
           in s\<lparr> camera_x := camera_x s + (target_x - camera_x s) * (1 / 10),
                 camera_y := camera_y s + (target_y - camera_y s) * (1 / 10) \<rparr>))"

definition check_game_conditions :: "engine \<Rightarrow> engine" where
  "check_game_conditions s =
     (let s1 = (if list_all (\<lambda>c. \<not> active c) (collectibles s) \<and> length (collectibles s) > 0
                then s\<lparr>game_state := (game_state s)\<lparr>win := True\<rparr>\<rparr> else s)
      in case current_player s1 of
           None \<Rightarrow> s1
         | Some p \<Rightarrow>
             if obj_y p > of_int (eng_height s1 + 200)
             then s1\<lparr>game_state := (game_state s1)\<lparr>game_over := True\<rparr>\<rparr> else s1)"

text \<open>
  After \<open>space.step(dt)\<close> the player's logical position is read back from its body.
\<close>

definition sync_player :: "Player \<Rightarrow> Player" where
  "sync_player p =
     (case physics_body p of
        None \<Rightarrow> p
      | Some b \<Rightarrow>
          p\<lparr> obj_x := pos_x b - obj_width p / 2, obj_y := pos_y b - obj_height p / 2,
             on_ground := (\<bar>vel_y b\<bar> < 10) \<rparr>)"

text \<open>
  \<open>update(dt)\<close>, one definition per commented block of the method.
  \<open>self.space.step(dt)\<close> is pymunk's: \<open>phys\<close> is what this call of it does to a
  dynamic body of the space.
\<close>

text \<open>\<open>self.dt = dt\<close>, \<open>self.game_state.time += dt\<close>, \<open>self.space.step(dt)\<close>\<close>

definition step_physics :: "real \<Rightarrow> (physics_body \<Rightarrow> physics_body) \<Rightarrow> engine \<Rightarrow> engine" where
  "step_physics dt phys s =
     s\<lparr> eng_dt := dt,
        game_state := (game_state s)\<lparr>state_time := state_time (game_state s) + dt\<rparr>,
        players := map (\<lambda>p. p\<lparr>physics_body := map_option phys (physics_body p)\<rparr>) (players s) \<rparr>"

text \<open>\<open># Sync player position with physics\<close>\<close>

definition sync_position :: "engine \<Rightarrow> engine" where
  "sync_position s =
     (case player s of
        None \<Rightarrow> s
      | Some i \<Rightarrow> s\<lparr>players := map_at i sync_player (players s)\<rparr>)"

text \<open>\<open># Update all objects\<close>: \<open>for obj in self.all_objects: if obj.active: obj.update(dt)\<close>\<close>

definition update_all_objects :: "real \<Rightarrow> engine \<Rightarrow> engine" where
  "update_all_objects dt s = fold (update_object dt) (all_objects s) s"

text \<open>\<open># Update enemies\<close>: \<open>for enemy in self.enemies: if enemy.active: enemy.update(dt)\<close>\<close>

definition update_enemies :: "real \<Rightarrow> engine \<Rightarrow> engine" where
  "update_enemies dt s =
     s\<lparr>enemies := map (\<lambda>e. if active e then Enemy_update dt e else e) (enemies s)\<rparr>"

definition update ::
  "engine_env \<Rightarrow> real \<Rightarrow> (physics_body \<Rightarrow> physics_body) \<Rightarrow> engine \<Rightarrow> engine" where
  "update env dt phys s =
     check_game_conditions
       (update_camera
          (check_collisions env
             (update_enemies dt
                (update_all_objects dt
                   (sync_position
                      (step_physics dt phys s))))))"

text \<open>The objects \<open>render\<close> draws: the active entries of \<open>all_objects\<close>, in order.\<close>

fun ref_active :: "engine \<Rightarrow> obj_ref \<Rightarrow> bool" where
  "ref_active s (PlayerRef i) = (i < length (players s) \<and> active (players s ! i))"
| "ref_active s (EnemyRef i) = (i < length (enemies s) \<and> active (enemies s ! i))"
| "ref_active s (CollectibleRef i) = (i < length (collectibles s) \<and> active (collectibles s ! i))"
| "ref_active s (PlatformRef i) = (i < length (platforms s) \<and> active (platforms s ! i))"

text \<open>What an entry of \<open>all_objects\<close> refers to, and its \<open>color\<close> and \<open>sprite\<close>.\<close>

fun ref_in_range :: "engine \<Rightarrow> obj_ref \<Rightarrow> bool" where
  "ref_in_range s (PlayerRef i) = (i < length (players s))"
| "ref_in_range s (EnemyRef i) = (i < length (enemies s))"
| "ref_in_range s (CollectibleRef i) = (i < length (collectibles s))"
| "ref_in_range s (PlatformRef i) = (i < length (platforms s))"

fun ref_color :: "engine \<Rightarrow> obj_ref \<Rightarrow> color" where
  "ref_color s (PlayerRef i) = obj_color (players s ! i)"
| "ref_color s (EnemyRef i) = obj_color (enemies s ! i)"
| "ref_color s (CollectibleRef i) = obj_color (collectibles s ! i)"
| "ref_color s (PlatformRef i) = obj_color (platforms s ! i)"

fun ref_sprite :: "engine \<Rightarrow> obj_ref \<Rightarrow> surface option" where
  "ref_sprite s (PlayerRef i) = sprite (players s ! i)"
| "ref_sprite s (EnemyRef i) = sprite (enemies s ! i)"
| "ref_sprite s (CollectibleRef i) = sprite (collectibles s ! i)"
| "ref_sprite s (PlatformRef i) = sprite (platforms s ! i)"

definition rendered_objects :: "engine \<Rightarrow> obj_ref list" where
  "rendered_objects s = filter (ref_active s) (all_objects s)"

text \<open>The win condition that \<open>_check_game_conditions\<close> tests.\<close>

definition all_collected :: "engine \<Rightarrow> bool" where
  "all_collected s = (collectibles s \<noteq> [] \<and> list_all (\<lambda>c. \<not> active c) (collectibles s))"

definition reset_game :: "engine \<Rightarrow> engine" where
  "reset_game s =
     (let s1 = s\<lparr>game_state := GameState_init\<rparr>;
          s2 = (case player s1 of
                  None \<Rightarrow> s1
                | Some i \<Rightarrow>
                    s1\<lparr>players :=
                         map_at i
                           (\<lambda>p. p\<lparr> health := 100,
                                   physics_body :=
                                     map_option (\<lambda>b. b\<lparr>pos_x := 100, pos_y := 400\<rparr>)
                                       (physics_body p) \<rparr>)
                           (players s1)\<rparr>)
      in s2\<lparr>collectibles :=
              map (\<lambda>c. c\<lparr>active := True, collected := False\<rparr>) (collectibles s2)\<rparr>)"

subsection \<open>Sessions\<close>

text \<open>
  The calls a session receives after its initialisation, as \<open>main.py\<close> issues them.
\<close>

datatype event =
    Update real "physics_body \<Rightarrow> physics_body"
  | Input "string set"
  | Reset

fun step :: "engine_env \<Rightarrow> config \<Rightarrow> event \<Rightarrow> engine \<Rightarrow> engine" where
  "step env cfg (Update dt phys) s = update env dt phys s"
| "step env cfg (Input keys) s = handle_input cfg keys s"
| "step env cfg Reset s = reset_game s"

definition run :: "engine_env \<Rightarrow> config \<Rightarrow> event list \<Rightarrow> engine \<Rightarrow> engine" where
  "run env cfg evs s = fold (step env cfg) evs s"

fun is_reset :: "event \<Rightarrow> bool" where
  "is_reset Reset = True"
| "is_reset _ = False"

subsection \<open>What holds in every session\<close>

text \<open>
  \<open>flags\<close> are the fields of a collectible that scoring and winning read.
  \<open>session_invariant\<close>: \<open>self.player\<close>, when set, is a player that has its physics
  body; a collectible is active exactly when it is not collected; and the win flag is
  set only when the win condition holds.
\<close>

definition flags :: "Collectible \<Rightarrow> int \<times> bool \<times> bool" where
  "flags c = (points c, collected c, active c)"

definition player_in_range :: "engine \<Rightarrow> bool" where
  "player_in_range s = (case player s of None \<Rightarrow> True | Some i \<Rightarrow> i < length (players s))"

definition player_has_body :: "engine \<Rightarrow> bool" where
  "player_has_body s =
     (case player s of
        None \<Rightarrow> True
      | Some i \<Rightarrow> i < length (players s) \<and> physics_body (players s ! i) \<noteq> None)"

definition session_invariant :: "engine \<Rightarrow> bool" where
  "session_invariant s =
     (player_has_body s \<and>
      list_all (\<lambda>c. active c = (\<not> collected c)) (collectibles s) \<and>
      (win (game_state s) \<longrightarrow> all_collected s))"


section \<open>Sample inputs\<close>

text \<open>
  Concrete values for the parameters, used where a statement is evaluated on an input.
  \<open>sample_digest\<close> stands in for MD5 and is injective, so it never makes two different
  contents collide. \<open>plain_int16\<close> reads a string made of hexadecimal digits only, as
  \<open>int(s, 16)\<close> does on such a string, and rejects every other string.
\<close>

definition sample_digest :: "string \<Rightarrow> string" where
  "sample_digest content = content"

definition hex_digit :: "char \<Rightarrow> int option" where
  "hex_digit c =
     map_of (zip ''0123456789abcdefABCDEF''
                 [0, 1, 2, 3, 4, 5, 6, 7, 8, 9, 10, 11, 12, 13, 14, 15, 10, 11, 12, 13, 14, 15]) c"

fun hex_value :: "int \<Rightarrow> string \<Rightarrow> int option" where
  "hex_value acc [] = Some acc"
| "hex_value acc (c # cs) =
     (case hex_digit c of None \<Rightarrow> None | Some d \<Rightarrow> hex_value (16 * acc + d) cs)"

definition plain_int16 :: "string \<Rightarrow> int option" where
  "plain_int16 s = (if s = [] then None else hex_value 0 s)"

definition sample_env :: "(nat \<Rightarrow> dalle_outcome) \<Rightarrow> am_env" where
  "sample_env outcomes =
     \<lparr> md5 = sample_digest, int16 = plain_int16, dalle = outcomes,
       fallback_saved = (\<lambda>p. True) \<rparr>"

text \<open>A freshly constructed \<open>AssetManager\<close> over an empty cache directory.\<close>

definition fresh_manager :: am_state where
  "fresh_manager =
     \<lparr> asset_cache = Map.empty, dalle_request_count = 0, files = {}, requests_sent = 0 \<rparr>"

text \<open>
  One player, one enemy named \<open>enemy_1\<close>, one level with two platforms and one
  collectible worth 10 points; the level has no \<open>background\<close> key (no code reads one).
\<close>

definition example_game :: game_data where
  "example_game =
     \<lparr> gd_title = Some ''Example'', gd_gameType = Some ''platformer'',
       gd_theme = Some ''fantasy'', gd_artStyle = Some ''pixel'',
       gd_entities =
         [\<lparr> ent_name = Some ''hero'', ent_type = Some ''player'', ent_color = Some ''#00FF00'',
            ent_x = Some 100, ent_y = Some 400, ent_width = Some 32, ent_height = Some 32 \<rparr>,
          \<lparr> ent_name = Some ''enemy_1'', ent_type = Some ''enemy'', ent_color = Some ''#FF0000'',
            ent_x = Some 300, ent_y = Some 400, ent_width = Some 32, ent_height = Some 32 \<rparr>],
       gd_levels =
         Some [\<lparr> lv_platforms =
                   [\<lparr> pd_x = Some 0, pd_y = Some 500, pd_width = Some 400, pd_height = Some 20,
                      pd_color = Some ''#8B4513'' \<rparr>,
                    \<lparr> pd_x = Some 400, pd_y = Some 450, pd_width = Some 200, pd_height = Some 20,
                      pd_color = None \<rparr>],
                 lv_collectibles =
                   [\<lparr> cd_x = Some 110, cd_y = Some 410, cd_width = Some 20, cd_height = Some 20,
                      cd_points = Some 10 \<rparr>] \<rparr>] \<rparr>"

text \<open>
  Two requests for \<open>_generate_dalle_asset\<close> with the same prompt and category and
  different target sizes.
\<close>

definition small_item :: asset_info where
  "small_item =
     \<lparr> ai_name = ''collectible'', ai_type = ''item'', ai_prompt = ''shiny treasure'',
       ai_size = (24, 24) \<rparr>"

definition large_item :: asset_info where
  "large_item =
     \<lparr> ai_name = ''collectible'', ai_type = ''item'', ai_prompt = ''shiny treasure'',
       ai_size = (800, 600) \<rparr>"

text \<open>
  The manager after the example game has been provisioned once with every generation
  succeeding (lemma \<open>first_run_succeeds\<close>): its cache holds the five generated images.
\<close>

definition warm_manager :: am_state where
  "warm_manager =
     snd (projr (generate_game_assets (sample_env (\<lambda>n. Generated)) example_config
                   example_game fresh_manager))"


text \<open>
  \<open>box_overlap\<close> is the overlap test of two axis-aligned boxes with positive sizes, which
  is what \<open>colliderect\<close> computes for rectangles with integral coordinates.
\<close>

definition box_overlap :: "rect \<Rightarrow> rect \<Rightarrow> bool" where
  "box_overlap a b =
     (case a of (ax, ay, aw, ah) \<Rightarrow>
        (case b of (bx, by, bw, bh) \<Rightarrow>
           0 < aw \<and> 0 < ah \<and> 0 < bw \<and> 0 < bh \<and>
           ax < bx + bw \<and> bx < ax + aw \<and> ay < by + bh \<and> by < ay + ah))"

definition sample_pygame :: engine_env where
  "sample_pygame =
     \<lparr> py_int16 = plain_int16, image_loads = (\<lambda>p. True), colliderect = box_overlap \<rparr>"

text \<open>A physics step that leaves the body where it is.\<close>

definition body_at_rest :: "physics_body \<Rightarrow> physics_body" where
  "body_at_rest b = b"

text \<open>The example game with its collectible worth \<open>-5\<close> points.\<close>

definition penalty_game :: game_data where
  "penalty_game =
     example_game\<lparr> gd_levels :=
       Some [\<lparr> lv_platforms = [],
               lv_collectibles =
                 [\<lparr> cd_x = Some 110, cd_y = Some 410, cd_width = Some 20, cd_height = Some 20,
                    cd_points = Some (- 5) \<rparr>] \<rparr>] \<rparr>"

text \<open>The example game with a level that has no collectible.\<close>

definition bare_game :: game_data where
  "bare_game =
     example_game\<lparr> gd_levels := Some [\<lparr> lv_platforms = [], lv_collectibles = [] \<rparr>] \<rparr>"

text \<open>The example game with a third entity of type \<open>item\<close>.\<close>

definition item_entity :: entity where
  "item_entity =
     \<lparr> ent_name = Some ''key'', ent_type = Some ''item'', ent_color = Some ''#0000FF'',
       ent_x = Some 200, ent_y = Some 400, ent_width = Some 16, ent_height = Some 16 \<rparr>"

text \<open>
  Sessions started from the sample games with no asset files, and the engine while
  \<open>_create_entities\<close> runs. Each is the result of a call that succeeds
  (lemmas \<open>example_session_started\<close>, \<open>penalty_session_started\<close>,
  \<open>bare_session_started\<close>, \<open>fresh_engine_made\<close>, \<open>two_entities_created\<close>).
\<close>

definition example_session :: engine where
  "example_session = projr (new_session sample_pygame example_config example_game [])"

definition penalty_session :: engine where
  "penalty_session = projr (new_session sample_pygame example_config penalty_game [])"

definition bare_session :: engine where
  "bare_session = projr (new_session sample_pygame example_config bare_game [])"

definition fresh_engine :: engine where
  "fresh_engine = projr (PygameGameEngine_init 800 600)"

definition two_entities :: engine where
  "two_entities =
     projr (create_entities sample_pygame example_config (gd_entities example_game) fresh_engine)"


section \<open>Properties of the asset pipeline\<close>

subsection \<open>Dictionaries and counters\<close>












lemmas am_eval = generate_game_assets_def identify_priority_assets_def player_request_def
  background_request_def enemy_request_def collectible_request_def platform_request_def
  generate_dalle_asset_def create_fallback_asset_def hex_rgb_def get_cache_key_def
  candidate_key_def
  example_config_def example_game_def sample_env_def fresh_manager_def slice_to_def
  get_or_def lower_def lower_char_def path_join_def dict_has_def
  create_player_prompt_def create_background_prompt_def create_enemy_prompt_def
  create_collectible_prompt_def create_platform_prompt_def sample_digest_def
  plain_int16_def hex_digit_def str_int_def str_nat.simps






subsection \<open>Budget and total binding\<close>



subsection \<open>Cache keys\<close>

text \<open>
  Claim C8, as amended. The cache key of a candidate is the digest of its prompt, its
  category and the configured \<open>SPRITE_SIZE\<close>; the candidate's own target size is no
  part of it, and neither the key nor the path that \<open>_generate_dalle_asset\<close> returns
  changes when only the target size of the candidate changes.
\<close>

theorem C8_key_ignores_target_size:
  "candidate_key m cfg a = m (ai_prompt a @ ''_'' @ ai_type a @ ''_'' @ str_int (SPRITE_SIZE cfg)) \<and>
   candidate_key m cfg (a\<lparr>ai_size := sz\<rparr>) = candidate_key m cfg a \<and>
   fst (generate_dalle_asset env cfg (a\<lparr>ai_size := sz\<rparr>) s) = fst (generate_dalle_asset env cfg a s)"
  by (simp add: candidate_key_def get_cache_key_def generate_dalle_asset_def Let_def
        split: dalle_outcome.splits)

text \<open>
  Claim C8 as stated fails: two requests with the same prompt and category, one for a
  24 by 24 image and one for an 800 by 600 image, get the same key, and after the first
  is generated the second is answered from the cache with the file of the first.
\<close>

theorem C8_same_key_counterexample:
  "ai_prompt small_item = ai_prompt large_item \<and> ai_type small_item = ai_type large_item \<and>
   ai_size small_item = (24, 24) \<and> ai_size large_item = (800, 600) \<and>
   candidate_key sample_digest example_config small_item
     = candidate_key sample_digest example_config large_item \<and>
   fst (generate_dalle_asset (sample_env (\<lambda>n. Generated)) example_config small_item fresh_manager)
     = Some ''cached_assets/shiny treasure_item_32.png'' \<and>
   generate_dalle_asset (sample_env (\<lambda>n. Generated)) example_config large_item
       (snd (generate_dalle_asset (sample_env (\<lambda>n. Generated)) example_config small_item
               fresh_manager))
     = (Some ''cached_assets/shiny treasure_item_32.png'',
        snd (generate_dalle_asset (sample_env (\<lambda>n. Generated)) example_config small_item
               fresh_manager))"
  by (simp add: am_eval small_item_def large_item_def candidate_key_def Let_def)

lemma first_run_succeeds:
  "generate_game_assets (sample_env (\<lambda>n. Generated)) example_config example_game fresh_manager
     = Inr (fst (projr (generate_game_assets (sample_env (\<lambda>n. Generated)) example_config
                          example_game fresh_manager)), warm_manager)"
proof -
  have "\<not> isl (generate_game_assets (sample_env (\<lambda>n. Generated)) example_config example_game
                 fresh_manager)"
    by (simp add: am_eval Let_def)
  then show ?thesis by (simp add: warm_manager_def)
qed

subsection \<open>Cache hits and the counter\<close>

lemma cache_hit_counted:
  assumes "asset_cache s (candidate_key (md5 env) cfg a) \<noteq> None"
    and "path_join (ASSET_CACHE_DIR cfg) (candidate_key (md5 env) cfg a @ ''.png'') \<in> files s"
    and "int (dalle_request_count s) < MAX_DALLE_REQUESTS_PER_GAME cfg"
  shows "priority_loop env cfg [a] (bound, s) =
           (dict_set (ai_name a)
              (path_join (ASSET_CACHE_DIR cfg) (candidate_key (md5 env) cfg a @ ''.png'')) bound,
            s\<lparr>dalle_request_count := dalle_request_count s + 1\<rparr>)"
  using assms by (simp add: generate_dalle_asset_def candidate_key_def Let_def)

lemma cache_miss_generated_counted:
  assumes "\<not> (asset_cache s (candidate_key (md5 env) cfg a) \<noteq> None \<and>
              path_join (ASSET_CACHE_DIR cfg) (candidate_key (md5 env) cfg a @ ''.png'') \<in> files s)"
    and "dalle env (requests_sent s) = Generated"
    and "int (dalle_request_count s) < MAX_DALLE_REQUESTS_PER_GAME cfg"
  shows "dalle_request_count (snd (priority_loop env cfg [a] (bound, s))) = dalle_request_count s + 1 \<and>
         requests_sent (snd (priority_loop env cfg [a] (bound, s))) = requests_sent s + 1"
  using assms by (auto simp: generate_dalle_asset_def candidate_key_def Let_def)

text \<open>
  Claim C2. The example game is provisioned twice by the same manager. The first run
  sends five requests and all succeed. In the second run every candidate is found in
  the cache and no request is sent (\<open>requests_sent\<close> stays 5, and any request would
  have failed), yet \<open>dalle_request_count\<close>, which \<open>main.py\<close> reports as
  \<open>dalle_requests_used\<close>, is 5 again: every cache hit is counted.
\<close>

theorem C2_cache_hits_are_counted:
  "requests_sent fresh_manager = 0 \<and>
   generate_game_assets (sample_env (\<lambda>n. Generated)) example_config example_game fresh_manager
     = Inr (fst (projr (generate_game_assets (sample_env (\<lambda>n. Generated)) example_config
                          example_game fresh_manager)), warm_manager) \<and>
   requests_sent warm_manager = 5 \<and>
   (\<exists>bound s'.
      generate_game_assets (sample_env (\<lambda>n. BadStatus)) example_config example_game warm_manager
        = Inr (bound, s') \<and>
      map fst bound = [''hero'', ''background'', ''enemy_1'', ''collectible'', ''platform''] \<and>
      requests_sent s' = 5 \<and> dalle_request_count s' = 5)"
proof -
  let ?r = "generate_game_assets (sample_env (\<lambda>n. BadStatus)) example_config example_game warm_manager"
  have a: "requests_sent fresh_manager = 0" by code_simp
  have b: "requests_sent warm_manager = 5" by code_simp
  have c: "\<not> isl ?r" by code_simp
  have d: "map fst (fst (projr ?r)) = [''hero'', ''background'', ''enemy_1'', ''collectible'', ''platform'']"
    by code_simp
  have e: "requests_sent (snd (projr ?r)) = 5" "dalle_request_count (snd (projr ?r)) = 5"
    by code_simp+
  from c have r: "?r = Inr (fst (projr ?r), snd (projr ?r))" by simp
  have "\<exists>bound s'. ?r = Inr (bound, s') \<and>
      map fst bound = [''hero'', ''background'', ''enemy_1'', ''collectible'', ''platform''] \<and>
      requests_sent s' = 5 \<and> dalle_request_count s' = 5"
  proof (intro exI conjI)
    show "?r = Inr (fst (projr ?r), snd (projr ?r))" by (rule r)
    show "map fst (fst (projr ?r)) = [''hero'', ''background'', ''enemy_1'', ''collectible'', ''platform'']"
      by (rule d)
    show "requests_sent (snd (projr ?r)) = 5" by (rule e(1))
    show "dalle_request_count (snd (projr ?r)) = 5" by (rule e(2))
  qed
  with a b first_run_succeeds show ?thesis by (intro conjI)
qed

subsection \<open>A write that fails after a successful generation\<close>




subsection \<open>The example game\<close>












section \<open>Properties of the engine\<close>

subsection \<open>Lists and loops\<close>

lemma length_map_at [simp]: "length (map_at i f xs) = length xs"
  by (simp add: map_at_def)

lemma map_map_at: "(\<And>x. g (f x) = g x) \<Longrightarrow> map g (map_at i f xs) = map g xs"
  by (simp add: map_at_def map_update list_update_same_conv)

lemma nth_map_at:
  "j < length xs \<Longrightarrow> map_at i f xs ! j = (if j = i then f (xs ! j) else xs ! j)"
  by (simp add: map_at_def)

lemma fold_invariant:
  assumes "\<And>x s. P s \<Longrightarrow> P (f x s)" and "P s"
  shows "P (fold f xs s)"
  using assms(2) by (induction xs arbitrary: s) (auto intro: assms(1))

subsection \<open>What one frame changes\<close>

lemma update_object_frame [simp]:
  "game_state (update_object dt r s) = game_state s"
  "player (update_object dt r s) = player s"
  "all_objects (update_object dt r s) = all_objects s"
  "length (players (update_object dt r s)) = length (players s)"
  "length (enemies (update_object dt r s)) = length (enemies s)"
  "length (collectibles (update_object dt r s)) = length (collectibles s)"
  "length (platforms (update_object dt r s)) = length (platforms s)"
  by (cases r; simp)+

lemma update_object_flags:
  "map flags (collectibles (update_object dt r s)) = map flags (collectibles s)"
  by (cases r) (simp_all add: map_map_at flags_def GameObject_update_def)

lemma update_object_players:
  "map physics_body (players (update_object dt r s)) = map physics_body (players s)"
  "map health (players (update_object dt r s)) = map health (players s)"
  by (cases r; simp add: map_map_at GameObject_update_def)+

lemma update_objects_frame:
  "game_state (fold (update_object dt) rs s) = game_state s \<and>
   player (fold (update_object dt) rs s) = player s \<and>
   all_objects (fold (update_object dt) rs s) = all_objects s \<and>
   length (players (fold (update_object dt) rs s)) = length (players s) \<and>
   length (enemies (fold (update_object dt) rs s)) = length (enemies s) \<and>
   length (platforms (fold (update_object dt) rs s)) = length (platforms s) \<and>
   map flags (collectibles (fold (update_object dt) rs s)) = map flags (collectibles s) \<and>
   map physics_body (players (fold (update_object dt) rs s)) = map physics_body (players s) \<and>
   map health (players (fold (update_object dt) rs s)) = map health (players s)"
  by (rule fold_invariant) (simp_all add: update_object_flags update_object_players)


lemma collect_loop_inactive:
  "list_all (\<lambda>c. \<not> active c) cs \<Longrightarrow> collect_loop cr pr cs sc = (cs, sc)"
  by (induction cs arbitrary: sc) auto

lemma collect_loop_shape:
  "collect_loop cr pr cs sc = (cs', sc') \<Longrightarrow>
     length cs' = length cs \<and> map points cs' = map points cs"
proof (induction cs arbitrary: sc cs' sc')
  case Nil then show ?case by simp
next
  case (Cons c cs)
  then show ?case
    by (auto simp: collect_def split: if_splits prod.splits)
qed

lemma collect_loop_score:
  "collect_loop cr pr cs sc = (cs', sc') \<Longrightarrow> \<forall>c\<in>set cs. 0 \<le> points c \<Longrightarrow> sc \<le> sc'"
proof (induction cs arbitrary: sc cs' sc')
  case Nil then show ?case by simp
next
  case (Cons c cs)
  show ?case
  proof (cases "active c \<and> cr pr (rect_of c)")
    case True
    obtain pts c1 where c: "collect c = (pts, c1)" by (cases "collect c")
    obtain cs1 sc1 where r: "collect_loop cr pr cs (sc + pts) = (cs1, sc1)"
      by (cases "collect_loop cr pr cs (sc + pts)")
    from c Cons.prems(2) have "0 \<le> pts" by (auto simp: collect_def split: if_splits)
    moreover from Cons.IH[OF r] Cons.prems(2) have "sc + pts \<le> sc1" by simp
    moreover from Cons.prems(1) True c r have "sc' = sc1" by simp
    ultimately show ?thesis by simp
  next
    case False
    obtain cs1 sc1 where r: "collect_loop cr pr cs sc = (cs1, sc1)"
      by (cases "collect_loop cr pr cs sc")
    from Cons.IH[OF r] Cons.prems(2) have "sc \<le> sc1" by simp
    moreover from Cons.prems(1) False r have "sc' = sc1" by auto
    ultimately show ?thesis by simp
  qed
qed

lemma check_collisions_frame [simp]:
  "player (check_collisions env s) = player s"
  "all_objects (check_collisions env s) = all_objects s"
  "length (players (check_collisions env s)) = length (players s)"
  "length (collectibles (check_collisions env s)) = length (collectibles s)"
  "map points (collectibles (check_collisions env s)) = map points (collectibles s)"
  "map physics_body (players (check_collisions env s)) = map physics_body (players s)"
  "win (game_state (check_collisions env s)) = win (game_state s)"
  by (auto simp: check_collisions_def map_map_at dest: collect_loop_shape
           split: option.splits prod.splits)

lemma check_collisions_inactive:
  "list_all (\<lambda>c. \<not> active c) (collectibles s) \<Longrightarrow>
     collectibles (check_collisions env s) = collectibles s"
  by (auto simp: check_collisions_def collect_loop_inactive split: option.splits prod.splits)

lemma check_collisions_score:
  "\<forall>c\<in>set (collectibles s). 0 \<le> points c \<Longrightarrow>
     score (game_state s) \<le> score (game_state (check_collisions env s))"
  by (auto simp: check_collisions_def dest: collect_loop_score split: option.splits prod.splits)

lemma update_camera_frame [simp]:
  "game_state (update_camera s) = game_state s"
  "player (update_camera s) = player s"
  "players (update_camera s) = players s"
  "collectibles (update_camera s) = collectibles s"
  "all_objects (update_camera s) = all_objects s"
  by (simp_all add: update_camera_def Let_def split: option.splits)

lemma check_game_conditions_frame [simp]:
  "player (check_game_conditions s) = player s"
  "players (check_game_conditions s) = players s"
  "collectibles (check_game_conditions s) = collectibles s"
  "all_objects (check_game_conditions s) = all_objects s"
  "score (game_state (check_game_conditions s)) = score (game_state s)"
  "win (game_state (check_game_conditions s)) = (win (game_state s) \<or> all_collected s)"
  by (auto simp: check_game_conditions_def all_collected_def Let_def current_player_def
           split: option.splits)


lemma sync_player_frame [simp]:
  "physics_body (sync_player p) = physics_body p" "health (sync_player p) = health p"
  by (simp_all add: sync_player_def split: option.splits)

lemma update_stages:
  obtains s5 where
    "update env dt phys s = check_game_conditions (update_camera (check_collisions env s5))"
    "score (game_state s5) = score (game_state s)"
    "win (game_state s5) = win (game_state s)"
    "player s5 = player s"
    "all_objects s5 = all_objects s"
    "length (players s5) = length (players s)"
    "map flags (collectibles s5) = map flags (collectibles s)"
    "map physics_body (players s5) = map (map_option phys) (map physics_body (players s))"
proof -
  define s2 where "s2 = step_physics dt phys s"
  define s3 where "s3 = sync_position s2"
  define s4 where "s4 = update_all_objects dt s3"
  define s5 where "s5 = update_enemies dt s4"
  have u: "update env dt phys s = check_game_conditions (update_camera (check_collisions env s5))"
    by (simp add: update_def s5_def s4_def s3_def s2_def)
  have f2: "score (game_state s2) = score (game_state s)" "win (game_state s2) = win (game_state s)"
    "player s2 = player s" "all_objects s2 = all_objects s" "collectibles s2 = collectibles s"
    "length (players s2) = length (players s)"
    "map physics_body (players s2) = map (map_option phys) (map physics_body (players s))"
    by (simp_all add: s2_def step_physics_def comp_def)
  have f3: "game_state s3 = game_state s2" "player s3 = player s2" "all_objects s3 = all_objects s2"
    "collectibles s3 = collectibles s2" "length (players s3) = length (players s2)"
    "map physics_body (players s3) = map physics_body (players s2)"
    by (simp_all add: s3_def sync_position_def map_map_at split: option.splits)
  note f4 = update_objects_frame[of dt "all_objects s3" s3, folded update_all_objects_def, folded s4_def]
  have f5: "game_state s5 = game_state s4" "player s5 = player s4" "all_objects s5 = all_objects s4"
    "collectibles s5 = collectibles s4" "players s5 = players s4"
    by (simp_all add: s5_def update_enemies_def)
  show thesis
  proof (rule that[of s5])
    show "update env dt phys s = check_game_conditions (update_camera (check_collisions env s5))"
      by (rule u)
  qed (simp_all add: f5 f4 f3 f2)
qed

lemma points_nonneg_cong:
  assumes "map points xs = map points ys" and "\<forall>c\<in>set ys. 0 \<le> points c"
  shows "\<forall>c\<in>set xs. 0 \<le> points c"
proof
  fix c assume "c \<in> set xs"
  then have "points c \<in> set (map points xs)" by simp
  with assms(1) have "points c \<in> set (map points ys)" by simp
  then obtain c' where "c' \<in> set ys" "points c' = points c" by auto
  with assms(2) show "0 \<le> points c" by metis
qed

lemma update_points:
  "map points (collectibles (update env dt phys s)) = map points (collectibles s)"
proof -
  obtain s5 where u: "update env dt phys s = check_game_conditions (update_camera (check_collisions env s5))"
    and fl: "map flags (collectibles s5) = map flags (collectibles s)"
    by (rule update_stages)
  from fl have "map (fst \<circ> flags) (collectibles s5) = map (fst \<circ> flags) (collectibles s)"
    by (simp flip: map_map)
  then have "map points (collectibles s5) = map points (collectibles s)"
    by (simp add: comp_def flags_def)
  with u show ?thesis by simp
qed

lemma update_length [simp]:
  "length (collectibles (update env dt phys s)) = length (collectibles s)"
  using arg_cong[OF update_points, of length env dt phys s] by simp

lemma update_score:
  assumes "\<forall>c\<in>set (collectibles s). 0 \<le> points c"
  shows "score (game_state s) \<le> score (game_state (update env dt phys s))"
proof -
  obtain s5 where u: "update env dt phys s = check_game_conditions (update_camera (check_collisions env s5))"
    and sc: "score (game_state s5) = score (game_state s)"
    and fl: "map flags (collectibles s5) = map flags (collectibles s)"
    by (rule update_stages)
  from fl have "map (fst \<circ> flags) (collectibles s5) = map (fst \<circ> flags) (collectibles s)"
    by (simp flip: map_map)
  then have "map points (collectibles s5) = map points (collectibles s)"
    by (simp add: comp_def flags_def)
  from points_nonneg_cong[OF this assms] have "\<forall>c\<in>set (collectibles s5). 0 \<le> points c" .
  from check_collisions_score[OF this, of env] u sc show ?thesis by simp
qed

lemma update_win:
  "win (game_state (update env dt phys s)) =
     (win (game_state s) \<or> all_collected (update env dt phys s))"
proof -
  obtain s5 where u: "update env dt phys s = check_game_conditions (update_camera (check_collisions env s5))"
    and w: "win (game_state s5) = win (game_state s)"
    by (rule update_stages)
  show ?thesis by (simp add: u w all_collected_def)
qed

lemma update_keeps_all_collected:
  assumes "all_collected s" shows "all_collected (update env dt phys s)"
proof -
  obtain s5 where u: "update env dt phys s = check_game_conditions (update_camera (check_collisions env s5))"
    and fl: "map flags (collectibles s5) = map flags (collectibles s)"
    by (rule update_stages)
  from fl have "map (snd \<circ> snd \<circ> flags) (collectibles s5) = map (snd \<circ> snd \<circ> flags) (collectibles s)"
    by (simp flip: map_map)
  then have a: "map active (collectibles s5) = map active (collectibles s)"
    by (simp add: comp_def flags_def)
  have "list_all (\<lambda>c. \<not> active c) (collectibles s5)"
  proof -
    from assms have "list_all (\<lambda>b. \<not> b) (map active (collectibles s))"
      by (simp add: all_collected_def list_all_iff)
    with a have "list_all (\<lambda>b. \<not> b) (map active (collectibles s5))" by simp
    then show ?thesis by (simp add: list_all_iff)
  qed
  moreover from a assms have "collectibles s5 \<noteq> []" by (auto simp: all_collected_def)
  ultimately show ?thesis by (simp add: u all_collected_def check_collisions_inactive)
qed


subsection \<open>Input and reset\<close>

lemma handle_input_frame [simp]:
  "game_state (handle_input cfg keys s) = game_state s"
  "collectibles (handle_input cfg keys s) = collectibles s"
  "player (handle_input cfg keys s) = player s"
  "all_objects (handle_input cfg keys s) = all_objects s"
  "length (players (handle_input cfg keys s)) = length (players s)"
  by (simp_all add: handle_input_def Let_def split: option.splits)

lemma handle_input_bodies:
  "map physics_body (players (handle_input cfg keys s)) = map physics_body (players s)"
  by (simp add: handle_input_def Let_def map_map_at jump_def move_left_def move_right_def
        stop_horizontal_def split: option.splits)

lemma reset_game_frame [simp]:
  "game_state (reset_game s) = GameState_init"
  "collectibles (reset_game s) = map (\<lambda>c. c\<lparr>active := True, collected := False\<rparr>) (collectibles s)"
  "player (reset_game s) = player s"
  "all_objects (reset_game s) = all_objects s"
  "length (players (reset_game s)) = length (players s)"
  by (simp_all add: reset_game_def Let_def split: option.splits)

subsection \<open>Runs\<close>

lemma run_append: "run env cfg (evs1 @ evs2) s = run env cfg evs2 (run env cfg evs1 s)"
  by (simp add: run_def)

lemma run_Cons: "run env cfg (ev # evs) s = run env cfg evs (step env cfg ev s)"
  by (simp add: run_def)

lemma run_Nil [simp]: "run env cfg [] s = s"
  by (simp add: run_def)

lemma step_points:
  "map points (collectibles (step env cfg ev s)) = map points (collectibles s)"
  by (cases ev) (simp_all add: update_points comp_def)

lemma step_score:
  "\<not> is_reset ev \<Longrightarrow> \<forall>c\<in>set (collectibles s). 0 \<le> points c \<Longrightarrow>
     score (game_state s) \<le> score (game_state (step env cfg ev s))"
  by (cases ev) (simp_all add: update_score)

lemma run_score:
  "list_all (\<lambda>ev. \<not> is_reset ev) evs \<Longrightarrow> \<forall>c\<in>set (collectibles s). 0 \<le> points c \<Longrightarrow>
     score (game_state s) \<le> score (game_state (run env cfg evs s))"
proof (induction evs arbitrary: s)
  case Nil then show ?case by simp
next
  case (Cons ev evs)
  from Cons.prems have nr: "\<not> is_reset ev" and rest: "list_all (\<lambda>ev. \<not> is_reset ev) evs" by simp_all
  have "\<forall>c\<in>set (collectibles (step env cfg ev s)). 0 \<le> points c"
    by (rule points_nonneg_cong[OF step_points Cons.prems(2)])
  from Cons.IH[OF rest this] step_score[OF nr Cons.prems(2), of env cfg]
  show ?case by (simp add: run_Cons)
qed

lemma run_points:
  "map points (collectibles (run env cfg evs s)) = map points (collectibles s)"
  by (induction evs arbitrary: s) (simp_all add: run_Cons step_points)

lemma collect_loop_exact:
  "collect_loop cr pr cs sc =
     (map (\<lambda>c. if active c \<and> cr pr (rect_of c) then snd (collect c) else c) cs,
      sc + sum_list (map points
             (filter (\<lambda>c. active c \<and> cr pr (rect_of c) \<and> \<not> collected c) cs)))"
  by (induction cs arbitrary: sc) (auto simp: collect_def)

lemma rendered_inactive:
  "i < length (collectibles s) \<Longrightarrow> \<not> active (collectibles s ! i) \<Longrightarrow>
     CollectibleRef i \<notin> set (rendered_objects s)"
  by (simp add: rendered_objects_def)

subsection \<open>Initialisation\<close>

lemma load_assets_frame [simp]:
  "game_state (load_assets env ps s) = game_state s"
  "player (load_assets env ps s) = player s"
  "players (load_assets env ps s) = players s"
  "enemies (load_assets env ps s) = enemies s"
  "collectibles (load_assets env ps s) = collectibles s"
  "platforms (load_assets env ps s) = platforms s"
  "all_objects (load_assets env ps s) = all_objects s"
  by (induction env ps s rule: load_assets.induct; simp)+

lemma color_last_object_frame [simp]:
  "game_state (color_last_object c s) = game_state s"
  "player (color_last_object c s) = player s"
  "all_objects (color_last_object c s) = all_objects s"
  "assets (color_last_object c s) = assets s"
  "length (players (color_last_object c s)) = length (players s)"
  "length (enemies (color_last_object c s)) = length (enemies s)"
  "length (collectibles (color_last_object c s)) = length (collectibles s)"
  "length (platforms (color_last_object c s)) = length (platforms s)"
  "map flags (collectibles (color_last_object c s)) = map flags (collectibles s)"
  "map obj_name (players (color_last_object c s)) = map obj_name (players s)"
  "map obj_name (enemies (color_last_object c s)) = map obj_name (enemies s)"
  by (simp_all add: color_last_object_def color_unless_sprite_def map_map_at flags_def
        split: list.splits obj_ref.splits)

lemma create_entity_frame:
  assumes "create_entity env cfg e s = Inr s'"
  shows "game_state s' = game_state s" "map flags (collectibles s') = map flags (collectibles s)"
    "length (platforms s') = length (platforms s)"
    "player_in_range s \<Longrightarrow> player_in_range s'"
  using assms
  by (auto simp: create_entity_def Let_def add_player_def add_enemy_def player_in_range_def
           split: if_splits sum.splits option.splits)

lemma create_entities_frame:
  assumes "create_entities env cfg es s = Inr s'"
  shows "game_state s' = game_state s \<and> map flags (collectibles s') = map flags (collectibles s) \<and>
    length (platforms s') = length (platforms s) \<and>
    (player_in_range s \<longrightarrow> player_in_range s')"
  using assms
proof (induction es arbitrary: s)
  case Nil then show ?case by simp
next
  case (Cons e es)
  from Cons.prems obtain s1 where 1: "create_entity env cfg e s = Inr s1"
    and 2: "create_entities env cfg es s1 = Inr s'" by (auto split: sum.splits)
  from Cons.IH[OF 2] create_entity_frame[OF 1] show ?case by simp
qed

lemma create_platform_frame:
  assumes "create_platform env pd s = Inr s'"
  shows "game_state s' = game_state s" "collectibles s' = collectibles s"
    "player s' = player s" "players s' = players s"
  using assms
  by (auto simp: create_platform_def Let_def add_platform_def split: if_splits sum.splits)

lemma create_platforms_frame:
  assumes "create_platforms env pds s = Inr s'"
  shows "game_state s' = game_state s \<and> collectibles s' = collectibles s \<and>
    player s' = player s \<and> players s' = players s"
  using assms
proof (induction pds arbitrary: s)
  case Nil then show ?case by simp
next
  case (Cons pd pds)
  from Cons.prems obtain s1 where 1: "create_platform env pd s = Inr s1"
    and 2: "create_platforms env pds s1 = Inr s'" by (auto split: sum.splits)
  from Cons.IH[OF 2] create_platform_frame[OF 1] show ?case by simp
qed

lemma create_collectible_frame:
  assumes "create_collectible cd s = Inr s'"
  shows "game_state s' = game_state s" "player s' = player s" "players s' = players s"
    "\<exists>c. collectibles s' = collectibles s @ [c] \<and> active c \<and> \<not> collected c"
  using assms
  by (auto simp: create_collectible_def Let_def add_collectible_def Collectible_init_def
           split: if_splits sum.splits option.splits)

lemma create_collectibles_frame:
  assumes "create_collectibles cds s = Inr s'"
  shows "game_state s' = game_state s \<and> player s' = player s \<and> players s' = players s \<and>
    length (collectibles s') = length (collectibles s) + length cds \<and>
    (list_all (\<lambda>c. active c = (\<not> collected c)) (collectibles s) \<longrightarrow>
       list_all (\<lambda>c. active c = (\<not> collected c)) (collectibles s'))"
  using assms
proof (induction cds arbitrary: s)
  case Nil then show ?case by simp
next
  case (Cons cd cds)
  from Cons.prems obtain s1 where 1: "create_collectible cd s = Inr s1"
    and 2: "create_collectibles cds s1 = Inr s'" by (auto split: sum.splits)
  from create_collectible_frame(4)[OF 1] obtain c where
    c: "collectibles s1 = collectibles s @ [c]" "active c" "\<not> collected c" by blast
  from Cons.IH[OF 2] create_collectible_frame(1-3)[OF 1] c show ?case by simp
qed

lemma setup_physics_frame [simp]:
  "game_state (setup_physics cfg s) = game_state s"
  "collectibles (setup_physics cfg s) = collectibles s"
  "player (setup_physics cfg s) = player s"
  by (simp_all add: setup_physics_def Let_def split: option.splits)

lemma setup_physics_body:
  "player_in_range s \<Longrightarrow> player_has_body (setup_physics cfg s)"
  by (auto simp: setup_physics_def Let_def player_in_range_def player_has_body_def map_at_def
           split: option.splits)

lemma new_session_facts:
  assumes "new_session env cfg gd asset_paths = Inr s0"
  shows "game_state s0 = GameState_init" "player_has_body s0"
    "list_all (\<lambda>c. active c = (\<not> collected c)) (collectibles s0)"
    "\<exists>lv. first_level gd = Inr lv \<and> length (collectibles s0) = length (lv_collectibles lv)"
proof -
  from assms obtain e0 gt s2 lv s3 where
    e0: "PygameGameEngine_init (GAME_WIDTH cfg) (GAME_HEIGHT cfg) = Inr e0"
    and ce: "create_entities env cfg (gd_entities gd)
               (load_assets env asset_paths (e0\<lparr>game_data := Some gd, game_type := gt\<rparr>)) = Inr s2"
    and lv: "first_level gd = Inr lv"
    and cl: "create_level_objects env lv s2 = Inr s3"
    and s0: "s0 = setup_physics cfg s3"
    by (auto simp: new_session_def initialize_game_def split: sum.splits)
  from e0 have f0: "game_state e0 = GameState_init" "player e0 = None" "collectibles e0 = []"
    by (auto simp: PygameGameEngine_init_def split: if_splits)
  note f2 = create_entities_frame[OF ce]
  from f0 f2 have g2: "game_state s2 = GameState_init" "collectibles s2 = []" "player_in_range s2"
    by (simp_all add: player_in_range_def)
  from cl obtain sp where cp: "create_platforms env (lv_platforms lv) s2 = Inr sp"
    and cc: "create_collectibles (lv_collectibles lv) sp = Inr s3"
    by (auto simp: create_level_objects_def split: sum.splits)
  note fp = create_platforms_frame[OF cp]
  note fc = create_collectibles_frame[OF cc]
  from g2 fp fc have g3: "game_state s3 = GameState_init" "player_in_range s3"
    "length (collectibles s3) = length (lv_collectibles lv)"
    "list_all (\<lambda>c. active c = (\<not> collected c)) (collectibles s3)"
    by (simp_all add: player_in_range_def split: option.splits)
  show "game_state s0 = GameState_init" by (simp add: s0 g3)
  show "player_has_body s0" by (simp add: s0 setup_physics_body g3)
  show "list_all (\<lambda>c. active c = (\<not> collected c)) (collectibles s0)" by (simp add: s0 g3)
  show "\<exists>lv. first_level gd = Inr lv \<and> length (collectibles s0) = length (lv_collectibles lv)"
    using lv g3 by (simp add: s0)
qed

subsection \<open>The session invariant\<close>

lemma flags_consistent:
  "map flags xs = map flags ys \<Longrightarrow>
     list_all (\<lambda>c. active c = (\<not> collected c)) xs = list_all (\<lambda>c. active c = (\<not> collected c)) ys"
proof -
  assume eq: "map flags xs = map flags ys"
  have "list_all (\<lambda>c. active c = (\<not> collected c)) zs =
        list_all (\<lambda>f. snd (snd f) = (\<not> fst (snd f))) (map flags zs)" for zs
    by (simp add: list_all_iff flags_def)
  with eq show ?thesis by simp
qed

lemma check_collisions_consistent:
  assumes "list_all (\<lambda>c. active c = (\<not> collected c)) (collectibles s)"
  shows "list_all (\<lambda>c. active c = (\<not> collected c)) (collectibles (check_collisions env s))"
  using assms
  by (auto simp: check_collisions_def collect_loop_exact collect_def list_all_iff
           split: option.splits prod.splits)

lemma update_frame:
  "player (update env dt phys s) = player s"
  "all_objects (update env dt phys s) = all_objects s"
  "length (players (update env dt phys s)) = length (players s)"
  "map physics_body (players (update env dt phys s)) =
     map (map_option phys) (map physics_body (players s))"
proof -
  obtain s5 where u: "update env dt phys s = check_game_conditions (update_camera (check_collisions env s5))"
    and f: "player s5 = player s" "all_objects s5 = all_objects s"
      "length (players s5) = length (players s)"
      "map physics_body (players s5) = map (map_option phys) (map physics_body (players s))"
    by (rule update_stages)
  show "player (update env dt phys s) = player s" by (simp add: u f)
  show "all_objects (update env dt phys s) = all_objects s" by (simp add: u f)
  show "length (players (update env dt phys s)) = length (players s)" by (simp add: u f)
  show "map physics_body (players (update env dt phys s)) =
     map (map_option phys) (map physics_body (players s))" by (simp add: u f)
qed

lemma update_consistent:
  assumes "list_all (\<lambda>c. active c = (\<not> collected c)) (collectibles s)"
  shows "list_all (\<lambda>c. active c = (\<not> collected c)) (collectibles (update env dt phys s))"
proof -
  obtain s5 where u: "update env dt phys s = check_game_conditions (update_camera (check_collisions env s5))"
    and fl: "map flags (collectibles s5) = map flags (collectibles s)"
    by (rule update_stages)
  from flags_consistent[OF fl] assms
  have "list_all (\<lambda>c. active c = (\<not> collected c)) (collectibles s5)" by simp
  from check_collisions_consistent[OF this, of env] show ?thesis by (simp add: u)
qed

lemma bodies_player_has_body:
  assumes "player_has_body s" and "player s' = player s"
    and "map (\<lambda>p. physics_body p \<noteq> None) (players s') = map (\<lambda>p. physics_body p \<noteq> None) (players s)"
  shows "player_has_body s'"
proof (cases "player s")
  case None with assms(2) show ?thesis by (simp add: player_has_body_def)
next
  case (Some i)
  with assms(1) have i: "i < length (players s)" "physics_body (players s ! i) \<noteq> None"
    by (simp_all add: player_has_body_def)
  from assms(3) have len: "length (players s') = length (players s)"
    by (rule map_eq_imp_length_eq)
  from assms(3) have "map (\<lambda>p. physics_body p \<noteq> None) (players s') ! i =
      map (\<lambda>p. physics_body p \<noteq> None) (players s) ! i" by simp
  with i(1) len
  have "(physics_body (players s' ! i) \<noteq> None) = (physics_body (players s ! i) \<noteq> None)"
    by simp
  with i len Some assms(2) show ?thesis by (simp add: player_has_body_def)
qed

lemma update_invariant:
  assumes "session_invariant s" shows "session_invariant (update env dt phys s)"
proof -
  from assms have a: "player_has_body s" "list_all (\<lambda>c. active c = (\<not> collected c)) (collectibles s)"
    "win (game_state s) \<longrightarrow> all_collected s"
    by (simp_all add: session_invariant_def)
  have "map (\<lambda>p. physics_body p \<noteq> None) (players (update env dt phys s)) =
        map (\<lambda>b. b \<noteq> None) (map physics_body (players (update env dt phys s)))" by simp
  also have "\<dots> = map (\<lambda>b. b \<noteq> None) (map (map_option phys) (map physics_body (players s)))"
    by (simp only: update_frame)
  also have "\<dots> = map (\<lambda>p. physics_body p \<noteq> None) (players s)" by simp
  finally have "player_has_body (update env dt phys s)"
    using bodies_player_has_body[OF a(1) update_frame(1)] by blast
  moreover note update_consistent[OF a(2), of env dt phys]
  moreover have "win (game_state (update env dt phys s)) \<longrightarrow> all_collected (update env dt phys s)"
    using a(3) update_win[of env dt phys s] update_keeps_all_collected[of s env dt phys] by blast
  ultimately show ?thesis by (simp add: session_invariant_def)
qed

lemma handle_input_invariant:
  assumes "session_invariant s" shows "session_invariant (handle_input cfg keys s)"
proof -
  from assms have a: "player_has_body s" by (simp add: session_invariant_def)
  have "map (\<lambda>p. physics_body p \<noteq> None) (players (handle_input cfg keys s)) =
        map (\<lambda>b. b \<noteq> None) (map physics_body (players (handle_input cfg keys s)))" by simp
  also have "\<dots> = map (\<lambda>p. physics_body p \<noteq> None) (players s)"
    by (simp only: handle_input_bodies) simp
  finally have "player_has_body (handle_input cfg keys s)"
    using bodies_player_has_body[OF a handle_input_frame(3)] by blast
  with assms show ?thesis by (simp add: session_invariant_def all_collected_def)
qed

lemma reset_game_bodies:
  "map (\<lambda>p. physics_body p \<noteq> None) (players (reset_game s)) =
     map (\<lambda>p. physics_body p \<noteq> None) (players s)"
  by (simp add: reset_game_def Let_def map_map_at split: option.splits)

lemma reset_game_invariant:
  assumes "session_invariant s" shows "session_invariant (reset_game s)"
proof -
  from assms have a: "player_has_body s" by (simp add: session_invariant_def)
  have "player_has_body (reset_game s)"
    by (rule bodies_player_has_body[OF a reset_game_frame(3) reset_game_bodies])
  then show ?thesis
    by (simp add: session_invariant_def GameState_init_def list_all_iff)
qed

lemma step_invariant: "session_invariant s \<Longrightarrow> session_invariant (step env cfg ev s)"
  by (cases ev) (simp_all add: update_invariant handle_input_invariant reset_game_invariant)

lemma run_invariant: "session_invariant s \<Longrightarrow> session_invariant (run env cfg evs s)"
  by (induction evs arbitrary: s) (simp_all add: run_Cons step_invariant)

lemma new_session_invariant:
  assumes "new_session env cfg gd asset_paths = Inr s0" shows "session_invariant s0"
  using new_session_facts(1-3)[OF assms]
  by (simp add: session_invariant_def GameState_init_def)

lemma run_length: "length (collectibles (run env cfg evs s)) = length (collectibles s)"
  using arg_cong[OF run_points, of length env cfg evs s] by simp

text \<open>
  Claim C6. In a session (a new engine initialised from a description, then any calls of
  \<open>update\<close>, \<open>handle_input\<close> and \<open>reset_game\<close>), after every further \<open>update\<close> the
  win flag is set if and only if the list of collectibles is not empty and none of them
  is active. When the level of the description has no collectible, the win flag is
  never set.
\<close>

theorem C6_win_iff_all_collected:
  assumes "new_session env cfg gd asset_paths = Inr s0"
  shows "(win (game_state (update env dt phys (run env cfg evs s0))) \<longleftrightarrow>
            collectibles (update env dt phys (run env cfg evs s0)) \<noteq> [] \<and>
            (\<forall>c\<in>set (collectibles (update env dt phys (run env cfg evs s0))). \<not> active c)) \<and>
         ((\<exists>lv. first_level gd = Inr lv \<and> lv_collectibles lv = []) \<longrightarrow>
            \<not> win (game_state (run env cfg evs s0)))"
proof -
  let ?s = "run env cfg evs s0"
  have inv: "session_invariant ?s"
    by (rule run_invariant[OF new_session_invariant[OF assms]])
  then have w: "win (game_state ?s) \<longrightarrow> all_collected ?s" by (simp add: session_invariant_def)
  have "win (game_state (update env dt phys ?s)) = all_collected (update env dt phys ?s)"
    using w update_win[of env dt phys ?s] update_keeps_all_collected[of ?s env dt phys] by blast
  then have first: "win (game_state (update env dt phys ?s)) \<longleftrightarrow>
      collectibles (update env dt phys ?s) \<noteq> [] \<and>
      (\<forall>c\<in>set (collectibles (update env dt phys ?s)). \<not> active c)"
    by (simp add: all_collected_def list_all_iff)
  have second: "\<not> win (game_state ?s)" if "\<exists>lv. first_level gd = Inr lv \<and> lv_collectibles lv = []"
  proof -
    from that new_session_facts(4)[OF assms] have "collectibles s0 = []" by auto
    then have "collectibles ?s = []" using run_length[of env cfg evs s0] by simp
    with w show ?thesis by (auto simp: all_collected_def)
  qed
  from first second show ?thesis by blast
qed

subsection \<open>Enemies in one frame\<close>

lemma update_object_enemy:
  assumes "i < length (enemies s)"
  shows "enemies (update_object dt r s) ! i =
           (if r = EnemyRef i then (if active (enemies s ! i) then Enemy_update dt (enemies s ! i)
                                     else enemies s ! i)
            else enemies s ! i)"
  using assms by (cases r) (simp_all add: nth_map_at)

lemma update_objects_enemy:
  assumes "i < length (enemies s)"
  shows "enemies (fold (update_object dt) rs s) ! i =
           ((\<lambda>e. if active e then Enemy_update dt e else e) ^^ count_list rs (EnemyRef i))
             (enemies s ! i)"
proof -
  define g where "g = (\<lambda>e. if active e then Enemy_update dt e else e)"
  have "enemies (fold (update_object dt) rs s) ! i = (g ^^ count_list rs (EnemyRef i)) (enemies s ! i)"
    using assms
  proof (induction rs arbitrary: s)
    case Nil then show ?case by simp
  next
    case (Cons r rs)
    from Cons.prems have len: "i < length (enemies (update_object dt r s))" by simp
    have one: "enemies (update_object dt r s) ! i = (if r = EnemyRef i then g (enemies s ! i) else enemies s ! i)"
      using update_object_enemy[OF Cons.prems, of dt r] by (simp add: g_def)
    show ?case
    proof (cases "r = EnemyRef i")
      case True
      with Cons.IH[OF len] one show ?thesis by (simp add: funpow_swap1)
    next
      case False
      with Cons.IH[OF len] one show ?thesis by simp
    qed
  qed
  then show ?thesis by (simp only: g_def)
qed

lemma Enemy_update_active [simp]: "active (Enemy_update dt e) = active e"
  by (simp add: Enemy_update_def GameObject_update_def Let_def)

lemma enemies_after_collisions [simp]:
  "enemies (check_game_conditions (update_camera (check_collisions env s))) = enemies s"
  by (simp add: check_game_conditions_def update_camera_def check_collisions_def Let_def
        split: option.splits prod.splits)

text \<open>
  In general: an active enemy that \<open>all_objects\<close> refers to once, as it does to every
  enemy after initialisation, is updated twice by one call of \<open>update\<close>.
\<close>

lemma update_integrates_enemy_twice:
  assumes "i < length (enemies s)" and "count_list (all_objects s) (EnemyRef i) = 1"
    and "active (enemies s ! i)"
  shows "enemies (update env dt phys s) ! i = Enemy_update dt (Enemy_update dt (enemies s ! i))"
proof -
  define s3 where "s3 = sync_position (step_physics dt phys s)"
  have f: "enemies s3 = enemies s" "all_objects s3 = all_objects s"
    by (simp_all add: s3_def sync_position_def step_physics_def split: option.splits)
  from assms(1) f have i: "i < length (enemies s3)" by simp
  have once: "enemies (update_all_objects dt s3) ! i = Enemy_update dt (enemies s ! i)"
    using update_objects_enemy[OF i, of dt "all_objects s3"] assms(2,3) f
    by (simp add: update_all_objects_def)
  have len: "i < length (enemies (update_all_objects dt s3))"
    using i update_objects_frame[of dt "all_objects s3" s3] by (simp add: update_all_objects_def)
  have "enemies (update_enemies dt (update_all_objects dt s3)) ! i
          = Enemy_update dt (Enemy_update dt (enemies s ! i))"
    using len once assms(3) by (simp add: update_enemies_def)
  then show ?thesis by (simp add: update_def s3_def)
qed

subsection \<open>The sample sessions\<close>

lemma example_session_started:
  "new_session sample_pygame example_config example_game [] = Inr example_session"
proof -
  have "\<not> isl (new_session sample_pygame example_config example_game [])" by code_simp
  then show ?thesis by (simp add: example_session_def)
qed

lemma penalty_session_started:
  "new_session sample_pygame example_config penalty_game [] = Inr penalty_session"
proof -
  have "\<not> isl (new_session sample_pygame example_config penalty_game [])" by code_simp
  then show ?thesis by (simp add: penalty_session_def)
qed

lemma bare_session_started:
  "new_session sample_pygame example_config bare_game [] = Inr bare_session"
proof -
  have "\<not> isl (new_session sample_pygame example_config bare_game [])" by code_simp
  then show ?thesis by (simp add: bare_session_def)
qed

lemma fresh_engine_made: "PygameGameEngine_init 800 600 = Inr fresh_engine"
proof -
  have "\<not> isl (PygameGameEngine_init 800 600)" by code_simp
  then show ?thesis by (simp add: fresh_engine_def)
qed

lemma two_entities_created:
  "create_entities sample_pygame example_config (gd_entities example_game) fresh_engine
     = Inr two_entities"
proof -
  have "\<not> isl (create_entities sample_pygame example_config (gd_entities example_game) fresh_engine)"
    by code_simp
  then show ?thesis by (simp add: two_entities_def)
qed

text \<open>
  Claim C3. The session of the example game; its enemy stands at \<open>x = 300\<close>, its spawn
  point, and patrols at speed 50. One call \<open>update(0.5)\<close> moves it to \<open>x = 350\<close>: it is
  integrated twice, \<open>2 * (50 * 0.5)\<close>, once in the loop over \<open>all_objects\<close> and once in
  the loop over \<open>enemies\<close> (lemma \<open>update_integrates_enemy_twice\<close> for any enemy).
\<close>

theorem C3_enemy_integrated_twice:
  "new_session sample_pygame example_config example_game [] = Inr example_session \<and>
   map obj_x (enemies example_session) = [300] \<and>
   map active (enemies example_session) = [True] \<and>
   map obj_x (enemies (update sample_pygame (1 / 2) body_at_rest example_session)) = [350] \<and>
   map velocity_x (enemies (update sample_pygame (1 / 2) body_at_rest example_session)) = [50]"
proof -
  have "map obj_x (enemies example_session) = [300]" by code_simp
  moreover have "map active (enemies example_session) = [True]" by code_simp
  moreover have "map obj_x (enemies (update sample_pygame (1 / 2) body_at_rest example_session)) = [350]"
    by code_simp
  moreover have "map velocity_x (enemies (update sample_pygame (1 / 2) body_at_rest example_session)) = [50]"
    by code_simp
  ultimately show ?thesis using example_session_started by simp
qed

text \<open>
  Claim C5, as amended. \<open>collect\<close> on a collectible that was just collected awards 0
  points and changes nothing more; after \<open>collect\<close> the collectible is collected, and it
  is active only if it was both active and already collected before. The collision loop
  applies \<open>collect\<close> to the active collectibles that overlap the player and to no other,
  and adds the points of those among them that were not yet collected; \<open>render\<close> draws
  no inactive collectible. Over any calls of \<open>update\<close> and \<open>handle_input\<close> without
  a reset the score does not decrease, provided no collectible has negative points.
\<close>

theorem C5_collect_once_score_monotone:
  "fst (collect (snd (collect c))) = 0 \<and>
   snd (collect (snd (collect c))) = snd (collect c) \<and>
   collected (snd (collect c)) \<and>
   active (snd (collect c)) = (active c \<and> collected c) \<and>
   collect_loop cr player_rect cs sc =
     (map (\<lambda>c. if active c \<and> cr player_rect (rect_of c) then snd (collect c) else c) cs,
      sc + sum_list (map points
             (filter (\<lambda>c. active c \<and> cr player_rect (rect_of c) \<and> \<not> collected c) cs))) \<and>
   (\<forall>i < length (collectibles s).
      \<not> active (collectibles s ! i) \<longrightarrow> CollectibleRef i \<notin> set (rendered_objects s)) \<and>
   (new_session env cfg gd asset_paths = Inr s0 \<longrightarrow>
      list_all (\<lambda>c. active c = (\<not> collected c)) (collectibles (run env cfg evs s0))) \<and>
   ((\<forall>c\<in>set (collectibles s). 0 \<le> points c) \<and> list_all (\<lambda>ev. \<not> is_reset ev) (evs1 @ evs2) \<longrightarrow>
      score (game_state (run env cfg evs1 s)) \<le> score (game_state (run env cfg (evs1 @ evs2) s)))"
proof -
  have mono: "score (game_state (run env cfg evs1 s)) \<le> score (game_state (run env cfg (evs1 @ evs2) s))"
    if pts: "\<forall>c\<in>set (collectibles s). 0 \<le> points c"
    and nr: "list_all (\<lambda>ev. \<not> is_reset ev) (evs1 @ evs2)"
  proof -
    have "\<forall>c\<in>set (collectibles (run env cfg evs1 s)). 0 \<le> points c"
      by (rule points_nonneg_cong[OF run_points pts])
    moreover from nr have "list_all (\<lambda>ev. \<not> is_reset ev) evs2" by simp
    ultimately show ?thesis by (simp add: run_append run_score)
  qed
  have once: "fst (collect (snd (collect c))) = 0" "snd (collect (snd (collect c))) = snd (collect c)"
    "collected (snd (collect c))" "active (snd (collect c)) = (active c \<and> collected c)"
    by (auto simp: collect_def)
  have sess: "list_all (\<lambda>c. active c = (\<not> collected c)) (collectibles (run env cfg evs s0))"
    if "new_session env cfg gd asset_paths = Inr s0"
    using run_invariant[OF new_session_invariant[OF that], of env cfg evs]
    by (simp add: session_invariant_def)
  from once mono sess show ?thesis by (simp add: collect_loop_exact rendered_inactive)
qed

text \<open>
  Claim C5 as stated fails for a collectible with negative points: in the session of
  \<open>penalty_game\<close> the player stands on a collectible worth \<open>-5\<close>, and one \<open>update\<close>
  takes the score from 0 to \<open>-5\<close>.
\<close>

theorem C5_score_decreases_counterexample:
  "new_session sample_pygame example_config penalty_game [] = Inr penalty_session \<and>
   map points (collectibles penalty_session) = [- 5] \<and>
   score (game_state penalty_session) = 0 \<and>
   score (game_state (update sample_pygame (1 / 2) body_at_rest penalty_session)) = - 5"
proof -
  have "map points (collectibles penalty_session) = [- 5]" by code_simp
  moreover have "score (game_state penalty_session) = 0" by code_simp
  moreover have "score (game_state (update sample_pygame (1 / 2) body_at_rest penalty_session)) = - 5"
    by code_simp
  ultimately show ?thesis using penalty_session_started by simp
qed

text \<open>
  The amended C5 on the example session: an update that collects the 10 points, then an
  input and another update with the player still on the collected item.
\<close>

theorem C5_collect_once_score_monotone_witness:
  "list_all (\<lambda>c. 0 \<le> points c) (collectibles example_session) \<and>
   list_all (\<lambda>ev. \<not> is_reset ev)
     ([Update (1 / 2) body_at_rest] @ [Input {''right''}, Update (1 / 2) body_at_rest]) \<and>
   score (game_state example_session) = 0 \<and>
   score (game_state (run sample_pygame example_config [Update (1 / 2) body_at_rest]
            example_session)) = 10 \<and>
   score (game_state (run sample_pygame example_config [Update (1 / 2) body_at_rest]
            example_session))
     \<le> score (game_state (run sample_pygame example_config
            ([Update (1 / 2) body_at_rest] @ [Input {''right''}, Update (1 / 2) body_at_rest])
            example_session))"
proof -
  have p: "list_all (\<lambda>c. 0 \<le> points c) (collectibles example_session)" by code_simp
  have n: "list_all (\<lambda>ev. \<not> is_reset ev)
     ([Update (1 / 2) body_at_rest] @ [Input {''right''}, Update (1 / 2) body_at_rest])" by simp
  have z: "score (game_state example_session) = 0" by code_simp
  have t: "score (game_state (run sample_pygame example_config [Update (1 / 2) body_at_rest]
            example_session)) = 10" by code_simp
  from p have p': "\<forall>c\<in>set (collectibles example_session). 0 \<le> points c"
    by (simp add: list_all_iff)
  from C5_collect_once_score_monotone[where s = example_session and env = sample_pygame
      and cfg = example_config and ?evs1.0 = "[Update (1 / 2) body_at_rest]"
      and ?evs2.0 = "[Input {''right''}, Update (1 / 2) body_at_rest]"] p' n
  have "score (game_state (run sample_pygame example_config [Update (1 / 2) body_at_rest]
            example_session))
     \<le> score (game_state (run sample_pygame example_config
            ([Update (1 / 2) body_at_rest] @ [Input {''right''}, Update (1 / 2) body_at_rest])
            example_session))" by blast
  with p n z t show ?thesis by blast
qed

text \<open>
  C6 on the example session, where the first update collects the only collectible, and
  on the session of \<open>bare_game\<close>, which has none.
\<close>

theorem C6_win_iff_all_collected_witness:
  "new_session sample_pygame example_config example_game [] = Inr example_session \<and>
   \<not> win (game_state example_session) \<and>
   map active (collectibles (update sample_pygame (1 / 2) body_at_rest example_session)) = [False] \<and>
   win (game_state (update sample_pygame (1 / 2) body_at_rest
          (run sample_pygame example_config [] example_session))) \<and>
   new_session sample_pygame example_config bare_game [] = Inr bare_session \<and>
   first_level bare_game = Inr \<lparr> lv_platforms = [], lv_collectibles = [] \<rparr> \<and>
   \<not> win (game_state (run sample_pygame example_config
            [Update (1 / 2) body_at_rest, Update 1000 body_at_rest] bare_session))"
proof -
  have a: "\<not> win (game_state example_session)" by code_simp
  have b: "map active (collectibles (update sample_pygame (1 / 2) body_at_rest example_session)) = [False]"
    by code_simp
  have c: "first_level bare_game = Inr \<lparr> lv_platforms = [], lv_collectibles = [] \<rparr>"
    by code_simp
  from b have b1: "collectibles (update sample_pygame (1 / 2) body_at_rest example_session) \<noteq> []"
    by auto
  have b2: "\<forall>c\<in>set (collectibles (update sample_pygame (1 / 2) body_at_rest example_session)). \<not> active c"
  proof
    fix c assume "c \<in> set (collectibles (update sample_pygame (1 / 2) body_at_rest example_session))"
    then have "active c \<in> set (map active (collectibles (update sample_pygame (1 / 2) body_at_rest example_session)))"
      by simp
    with b show "\<not> active c" by simp
  qed
  from C6_win_iff_all_collected[OF example_session_started, of "1 / 2" body_at_rest "[]"] b1 b2
  have w: "win (game_state (update sample_pygame (1 / 2) body_at_rest
          (run sample_pygame example_config [] example_session)))" by simp
  from C6_win_iff_all_collected[OF bare_session_started,
      of 0 body_at_rest "[Update (1 / 2) body_at_rest, Update 1000 body_at_rest]"] c
  have n: "\<not> win (game_state (run sample_pygame example_config
            [Update (1 / 2) body_at_rest, Update 1000 body_at_rest] bare_session))" by simp
  from a b c w n example_session_started bare_session_started show ?thesis by blast
qed

lemma reset_game_shape:
  "reset_game s = s\<lparr> game_state := GameState_init, players := players (reset_game s),
                     collectibles := collectibles (reset_game s) \<rparr>"
  by (simp add: reset_game_def Let_def split: option.splits)

lemma reset_game_player:
  assumes "player s = Some i" and "i < length (players s)"
  shows "health (players (reset_game s) ! i) = 100"
    "physics_body (players (reset_game s) ! i) =
       map_option (\<lambda>b. b\<lparr>pos_x := 100, pos_y := 400\<rparr>) (physics_body (players s ! i))"
    "\<forall>j < length (players s). j \<noteq> i \<longrightarrow> players (reset_game s) ! j = players s ! j"
    "(players (reset_game s) ! i)\<lparr> health := health (players s ! i),
        physics_body := physics_body (players s ! i) \<rparr> = players s ! i"
  using assms by (simp_all add: reset_game_def Let_def nth_map_at)

text \<open>
  Claim C7. In a session \<open>s\<close>, \<open>reset_game\<close> gives the default \<open>GameState\<close> (score 0,
  \<open>game_over\<close> and \<open>win\<close> false); the player, when there is one, gets health 100 and
  its physics body is moved to \<open>(100, 400)\<close>, nothing else of it changes and no other
  \<open>Player\<close> object changes; every collectible becomes active and not collected and keeps
  its other fields; and no other field of the engine changes: the game description, the
  lists of enemies and platforms, \<open>all_objects\<close>, the physics space, the loaded assets
  and the background are what they were.
\<close>

theorem C7_reset_restores_session:
  assumes "new_session env cfg gd asset_paths = Inr s0"
      and "s = run env cfg evs s0"
      and "r = reset_game s"
  shows "game_state r = GameState_init \<and> score (game_state r) = 0 \<and>
         \<not> game_over (game_state r) \<and> \<not> win (game_state r) \<and>
         (\<forall>i. player s = Some i \<longrightarrow>
            i < length (players r) \<and> health (players r ! i) = 100 \<and>
            (\<exists>b. physics_body (players s ! i) = Some b \<and>
                 physics_body (players r ! i) = Some (b\<lparr>pos_x := 100, pos_y := 400\<rparr>)) \<and>
            (players r ! i)\<lparr> health := health (players s ! i),
               physics_body := physics_body (players s ! i) \<rparr> = players s ! i \<and>
            (\<forall>j < length (players s). j \<noteq> i \<longrightarrow> players r ! j = players s ! j)) \<and>
         (player s = None \<longrightarrow> players r = players s) \<and>
         length (players r) = length (players s) \<and>
         collectibles r = map (\<lambda>c. c\<lparr>active := True, collected := False\<rparr>) (collectibles s) \<and>
         list_all (\<lambda>c. active c \<and> \<not> collected c) (collectibles r) \<and>
         r = s\<lparr> game_state := GameState_init, players := players r,
                collectibles := collectibles r \<rparr> \<and>
         game_data r = game_data s \<and> player r = player s \<and> enemies r = enemies s \<and>
         platforms r = platforms s \<and> all_objects r = all_objects s \<and> space r = space s \<and>
         assets r = assets s \<and> background r = background s \<and> game_type r = game_type s"
proof -
  have inv: "session_invariant s"
    unfolding assms(2) by (rule run_invariant[OF new_session_invariant[OF assms(1)]])
  then have pb: "player_has_body s" by (simp add: session_invariant_def)
  have pl: "i < length (players r) \<and> health (players r ! i) = 100 \<and>
            (\<exists>b. physics_body (players s ! i) = Some b \<and>
                 physics_body (players r ! i) = Some (b\<lparr>pos_x := 100, pos_y := 400\<rparr>)) \<and>
            (players r ! i)\<lparr> health := health (players s ! i),
               physics_body := physics_body (players s ! i) \<rparr> = players s ! i \<and>
            (\<forall>j < length (players s). j \<noteq> i \<longrightarrow> players r ! j = players s ! j)"
    if p: "player s = Some i" for i
  proof -
    from pb p have i: "i < length (players s)" and b: "physics_body (players s ! i) \<noteq> None"
      by (simp_all add: player_has_body_def)
    from b obtain b0 where b0: "physics_body (players s ! i) = Some b0" by auto
    from reset_game_player[OF p i] i b0 show ?thesis by (simp add: assms(3))
  qed
  have np: "players r = players s" if "player s = None"
    using that by (simp add: assms(3) reset_game_def Let_def)
  have fr: "r = s\<lparr> game_state := GameState_init, players := players r, collectibles := collectibles r \<rparr>"
    unfolding assms(3) by (rule reset_game_shape)
  have frame: "game_data r = game_data s" "player r = player s" "enemies r = enemies s"
    "platforms r = platforms s" "all_objects r = all_objects s" "space r = space s"
    "assets r = assets s" "background r = background s" "game_type r = game_type s"
    by (subst fr, simp)+
  have gs: "game_state r = GameState_init" "score (game_state r) = 0"
    "\<not> game_over (game_state r)" "\<not> win (game_state r)"
    by (simp_all add: assms(3) GameState_init_def)
  have cs: "collectibles r = map (\<lambda>c. c\<lparr>active := True, collected := False\<rparr>) (collectibles s)"
    "list_all (\<lambda>c. active c \<and> \<not> collected c) (collectibles r)"
    "length (players r) = length (players s)"
    by (simp_all add: assms(3) list_all_iff)
  from gs pl np cs fr frame show ?thesis by blast
qed

text \<open>
  C7 on the example session after the update that collects the collectible and wins.
\<close>

theorem C7_reset_restores_session_witness:
  "new_session sample_pygame example_config example_game [] = Inr example_session \<and>
   score (game_state (run sample_pygame example_config [Update (1 / 2) body_at_rest]
      example_session)) = 10 \<and>
   win (game_state (run sample_pygame example_config [Update (1 / 2) body_at_rest]
      example_session)) \<and>
   map active (collectibles (run sample_pygame example_config [Update (1 / 2) body_at_rest]
      example_session)) = [False] \<and>
   player (run sample_pygame example_config [Update (1 / 2) body_at_rest] example_session)
     = Some 0 \<and>
   game_state (reset_game (run sample_pygame example_config [Update (1 / 2) body_at_rest]
      example_session)) = GameState_init \<and>
   health (players (reset_game (run sample_pygame example_config [Update (1 / 2) body_at_rest]
      example_session)) ! 0) = 100 \<and>
   list_all (\<lambda>c. active c \<and> \<not> collected c)
     (collectibles (reset_game (run sample_pygame example_config [Update (1 / 2) body_at_rest]
        example_session))) \<and>
   all_objects (reset_game (run sample_pygame example_config [Update (1 / 2) body_at_rest]
        example_session))
     = [PlayerRef 0, EnemyRef 0, PlatformRef 0, PlatformRef (Suc 0), CollectibleRef 0]"
proof -
  let ?s = "run sample_pygame example_config [Update (1 / 2) body_at_rest] example_session"
  have a: "score (game_state ?s) = 10" by code_simp
  have b: "win (game_state ?s)" by code_simp
  have c: "map active (collectibles ?s) = [False]" by code_simp
  have d: "player ?s = Some 0" by code_simp
  have e: "all_objects ?s = [PlayerRef 0, EnemyRef 0, PlatformRef 0, PlatformRef (Suc 0), CollectibleRef 0]"
    by code_simp
  note r = C7_reset_restores_session[OF example_session_started refl refl,
      of "[Update (1 / 2) body_at_rest]"]
  from r have r1: "game_state (reset_game ?s) = GameState_init"
    and r3: "list_all (\<lambda>c. active c \<and> \<not> collected c) (collectibles (reset_game ?s))"
    and r4: "all_objects (reset_game ?s) = all_objects ?s"
    by blast+
  from r d have r2: "health (players (reset_game ?s) ! 0) = 100" by blast
  from a b c d e r1 r2 r3 r4 example_session_started show ?thesis by simp
qed

subsection \<open>Which entities become objects\<close>

lemma create_entity_objects:
  assumes "create_entity env cfg e s = Inr s'"
  shows "all_objects s' = all_objects s @
           (if is_player_entity e then [PlayerRef (length (players s))]
            else if is_enemy_entity e then [EnemyRef (length (enemies s))] else [])"
    "map obj_name (players s') = map obj_name (players s) @
           (if is_player_entity e then [get_or (ent_name e) ''unnamed''] else [])"
    "map obj_name (enemies s') = map obj_name (enemies s) @
           (if \<not> is_player_entity e \<and> is_enemy_entity e then [get_or (ent_name e) ''unnamed''] else [])"
    "length (collectibles s') = length (collectibles s)"
    "length (platforms s') = length (platforms s)"
  using assms
  by (auto simp: create_entity_def Let_def add_player_def add_enemy_def Player_init_def
        Enemy_init_def split: if_splits sum.splits)

lemma create_entities_objects:
  assumes "create_entities env cfg es s = Inr s'"
  shows "(\<exists>new. all_objects s' = all_objects s @ new \<and>
            length new = length (filter (\<lambda>e. is_player_entity e \<or> is_enemy_entity e) es)) \<and>
         map obj_name (players s') = map obj_name (players s) @
            map (\<lambda>e. get_or (ent_name e) ''unnamed'') (filter is_player_entity es) \<and>
         map obj_name (enemies s') = map obj_name (enemies s) @
            map (\<lambda>e. get_or (ent_name e) ''unnamed'')
              (filter (\<lambda>e. \<not> is_player_entity e \<and> is_enemy_entity e) es) \<and>
         length (collectibles s') = length (collectibles s) \<and>
         length (platforms s') = length (platforms s)"
  using assms
proof (induction es arbitrary: s)
  case Nil then show ?case by simp
next
  case (Cons e es)
  from Cons.prems obtain s1 where 1: "create_entity env cfg e s = Inr s1"
    and 2: "create_entities env cfg es s1 = Inr s'" by (auto split: sum.splits)
  note o = create_entity_objects[OF 1]
  from Cons.IH[OF 2] obtain new where
    n: "all_objects s' = all_objects s1 @ new"
       "length new = length (filter (\<lambda>e. is_player_entity e \<or> is_enemy_entity e) es)"
    and rest: "map obj_name (players s') = map obj_name (players s1) @
            map (\<lambda>e. get_or (ent_name e) ''unnamed'') (filter is_player_entity es)"
       "map obj_name (enemies s') = map obj_name (enemies s1) @
            map (\<lambda>e. get_or (ent_name e) ''unnamed'')
              (filter (\<lambda>e. \<not> is_player_entity e \<and> is_enemy_entity e) es)"
       "length (collectibles s') = length (collectibles s1)"
       "length (platforms s') = length (platforms s1)"
    by blast
  have "\<exists>new'. all_objects s' = all_objects s @ new' \<and>
      length new' = length (filter (\<lambda>e. is_player_entity e \<or> is_enemy_entity e) (e # es))"
    using n o(1) by auto
  moreover from rest o have "map obj_name (players s') = map obj_name (players s) @
            map (\<lambda>e. get_or (ent_name e) ''unnamed'') (filter is_player_entity (e # es))"
    "map obj_name (enemies s') = map obj_name (enemies s) @
            map (\<lambda>e. get_or (ent_name e) ''unnamed'')
              (filter (\<lambda>e. \<not> is_player_entity e \<and> is_enemy_entity e) (e # es))"
    "length (collectibles s') = length (collectibles s)"
    "length (platforms s') = length (platforms s)"
    by simp_all
  ultimately show ?case by blast
qed

lemma color_last_object_color:
  assumes "all_objects s \<noteq> []" and "ref_in_range s (last (all_objects s))"
  shows "ref_color (color_last_object c s) (last (all_objects s)) =
           (if ref_sprite s (last (all_objects s)) = None then c
            else ref_color s (last (all_objects s)))"
  using assms
  by (cases "last (all_objects s)")
     (auto simp: color_last_object_def color_unless_sprite_def map_at_def split: list.splits)

lemma create_entity_no_object:
  assumes "\<not> is_player_entity e" and "\<not> is_enemy_entity e"
    and "create_entity env cfg e s = Inr s'"
  shows "\<exists>c. parse_color (py_int16 env) (get_or (ent_color e) ''#FFFFFF'') = Inr c \<and>
             s' = color_last_object c s"
  using assms by (auto simp: create_entity_def Let_def split: sum.splits)

text \<open>
  Claim C10. \<open>_create_entities\<close> appends to \<open>all_objects\<close> one object for each entity
  whose type is \<open>player\<close> (a \<open>Player\<close> of that name) or whose type or name contains
  \<open>enemy\<close> in any case (an \<open>Enemy\<close> of that name), in order, and creates no
  collectible and no platform. The loop body for any other entity \<open>e\<close> leaves
  \<open>all_objects\<close>, \<open>player\<close> and the number of objects of every class as they are; it
  parses the colour of \<open>e\<close> and gives it to the last object of \<open>all_objects\<close>, if there
  is one, unless that object has a sprite.
\<close>

theorem C10_objects_only_for_players_and_enemies:
  "(create_entities env cfg es s = Inr s' \<longrightarrow>
      (\<exists>new. all_objects s' = all_objects s @ new \<and>
            length new = length (filter (\<lambda>e. is_player_entity e \<or> is_enemy_entity e) es)) \<and>
      map obj_name (players s') = map obj_name (players s) @
         map (\<lambda>e. get_or (ent_name e) ''unnamed'') (filter is_player_entity es) \<and>
      map obj_name (enemies s') = map obj_name (enemies s) @
         map (\<lambda>e. get_or (ent_name e) ''unnamed'')
           (filter (\<lambda>e. \<not> is_player_entity e \<and> is_enemy_entity e) es) \<and>
      length (collectibles s') = length (collectibles s) \<and>
      length (platforms s') = length (platforms s)) \<and>
   (\<not> is_player_entity e \<and> \<not> is_enemy_entity e \<and> create_entity env cfg e s = Inr s1 \<longrightarrow>
      all_objects s1 = all_objects s \<and> player s1 = player s \<and>
      length (players s1) = length (players s) \<and> length (enemies s1) = length (enemies s) \<and>
      length (collectibles s1) = length (collectibles s) \<and>
      length (platforms s1) = length (platforms s) \<and>
      (\<exists>c. parse_color (py_int16 env) (get_or (ent_color e) ''#FFFFFF'') = Inr c \<and>
           s1 = color_last_object c s \<and>
           (all_objects s \<noteq> [] \<and> ref_in_range s (last (all_objects s)) \<longrightarrow>
              ref_color s1 (last (all_objects s)) =
                (if ref_sprite s (last (all_objects s)) = None then c
                 else ref_color s (last (all_objects s))))))"
proof -
  have second: "all_objects s1 = all_objects s \<and> player s1 = player s \<and>
      length (players s1) = length (players s) \<and> length (enemies s1) = length (enemies s) \<and>
      length (collectibles s1) = length (collectibles s) \<and>
      length (platforms s1) = length (platforms s) \<and>
      (\<exists>c. parse_color (py_int16 env) (get_or (ent_color e) ''#FFFFFF'') = Inr c \<and>
           s1 = color_last_object c s \<and>
           (all_objects s \<noteq> [] \<and> ref_in_range s (last (all_objects s)) \<longrightarrow>
              ref_color s1 (last (all_objects s)) =
                (if ref_sprite s (last (all_objects s)) = None then c
                 else ref_color s (last (all_objects s)))))"
    if h: "\<not> is_player_entity e" "\<not> is_enemy_entity e" "create_entity env cfg e s = Inr s1"
  proof -
    from create_entity_no_object[OF h] obtain c where
      c: "parse_color (py_int16 env) (get_or (ent_color e) ''#FFFFFF'') = Inr c"
      and s1: "s1 = color_last_object c s" by blast
    from c s1 color_last_object_color[of s c] show ?thesis by simp
  qed
  from create_entities_objects[of env cfg es s s'] second show ?thesis by blast
qed

text \<open>
  C10 on the entities of the example game followed by an entity of type \<open>item\<close>: the
  item creates no object, and its blue replaces the red of \<open>enemy_1\<close>.
\<close>

theorem C10_objects_only_for_players_and_enemies_witness:
  "PygameGameEngine_init 800 600 = Inr fresh_engine \<and>
   create_entities sample_pygame example_config (gd_entities example_game) fresh_engine
     = Inr two_entities \<and>
   all_objects fresh_engine = [] \<and>
   all_objects two_entities = [PlayerRef 0, EnemyRef 0] \<and>
   map obj_name (players two_entities) = [''hero''] \<and>
   map obj_name (enemies two_entities) = [''enemy_1''] \<and>
   \<not> is_player_entity item_entity \<and> \<not> is_enemy_entity item_entity \<and>
   obj_color (enemies two_entities ! 0) = (255, 0, 0) \<and>
   (\<exists>s1. create_entity sample_pygame example_config item_entity two_entities = Inr s1 \<and>
         all_objects s1 = [PlayerRef 0, EnemyRef 0] \<and>
         length (players s1) = 1 \<and> length (enemies s1) = 1 \<and>
         obj_color (enemies s1 ! 0) = (0, 0, 255))"
proof -
  have a: "all_objects fresh_engine = []" by code_simp
  have b: "all_objects two_entities = [PlayerRef 0, EnemyRef 0]" by code_simp
  have c: "\<not> is_player_entity item_entity" "\<not> is_enemy_entity item_entity" by code_simp+
  have d: "obj_color (enemies two_entities ! 0) = (255, 0, 0)" by code_simp
  have e: "parse_color (py_int16 sample_pygame) (get_or (ent_color item_entity) ''#FFFFFF'')
             = Inr (0, 0, 255)" by code_simp
  have f: "ref_sprite two_entities (EnemyRef 0) = None" "ref_in_range two_entities (EnemyRef 0)"
    "length (players two_entities) = 1" "length (enemies two_entities) = 1"
    by code_simp+
  have "\<not> isl (create_entity sample_pygame example_config item_entity two_entities)" by code_simp
  then obtain s1 where s1: "create_entity sample_pygame example_config item_entity two_entities = Inr s1"
    by (cases "create_entity sample_pygame example_config item_entity two_entities") auto
  note t = C10_objects_only_for_players_and_enemies[where env = sample_pygame
      and cfg = example_config and e = item_entity and s = two_entities and ?s1.0 = s1
      and es = "gd_entities example_game" and s' = two_entities]
  from t c s1 have g: "all_objects s1 = all_objects two_entities"
    "length (players s1) = length (players two_entities)"
    "length (enemies s1) = length (enemies two_entities)"
    by blast+
  from t c s1 obtain col where col:
    "parse_color (py_int16 sample_pygame) (get_or (ent_color item_entity) ''#FFFFFF'') = Inr col"
    "all_objects two_entities \<noteq> [] \<and> ref_in_range two_entities (last (all_objects two_entities)) \<longrightarrow>
       ref_color s1 (last (all_objects two_entities)) =
         (if ref_sprite two_entities (last (all_objects two_entities)) = None then col
          else ref_color two_entities (last (all_objects two_entities)))"
    by blast
  from col(1) e have "col = (0, 0, 255)" by simp
  with col(2) b f have h: "obj_color (enemies s1 ! 0) = (0, 0, 255)" by simp
  have n: "map obj_name (players two_entities) = [''hero'']"
    "map obj_name (enemies two_entities) = [''enemy_1'']" by code_simp+
  from a b c d g h s1 f n fresh_engine_made two_entities_created show ?thesis by simp
qed

end
